theory Spec2Isabelle
  imports Main "HOL-Library.Sublist" "HOL-Library.AList"
begin

unbundle bit_operations_syntax

section \<open>Python string primitives used by the library\<close>

text \<open>
  \<^verbatim>\<open>s.split(sep)\<close> for a one-character separator: the pieces between the
  occurrences of the separator, empty pieces kept, never an empty list.
\<close>

fun py_split :: "char \<Rightarrow> string \<Rightarrow> string list" where
  "py_split c [] = [[]]"
| "py_split c (x # xs) =
     (if x = c then [] # py_split c xs
      else (case py_split c xs of [] \<Rightarrow> [[x]] | w # ws \<Rightarrow> (x # w) # ws))"

text \<open>\<^verbatim>\<open>sep.join(parts)\<close>.\<close>

fun py_join :: "string \<Rightarrow> string list \<Rightarrow> string" where
  "py_join sep [] = []"
| "py_join sep [w] = w"
| "py_join sep (w # v # ws) = w @ sep @ py_join sep (v # ws)"

text \<open>
  \<^verbatim>\<open>re.sub("^0*", "", i)\<close> and \<^verbatim>\<open>re.sub("^0+", "", part)\<close>: the pattern is
  anchored at the start of the string, so both delete exactly the leading run
  of the character \<^verbatim>\<open>0\<close>.
\<close>

definition re_sub_leading_zeros :: "string \<Rightarrow> string" where
  "re_sub_leading_zeros i = dropWhile (\<lambda>c. c = CHR ''0'') i"

section \<open>lib\_peeringdb.py: unexplode\_ip\<close>

text \<open>
  The body of the \<^verbatim>\<open>for i in ips\<close> loop of \<^verbatim>\<open>unexplode_ip\<close>, and the loop
  itself with its accumulator \<^verbatim>\<open>results\<close>.
\<close>

definition unexplode_part :: "string \<Rightarrow> string" where
  "unexplode_part i =
     (let i' = re_sub_leading_zeros i in if length i' = 0 then ''0'' else i')"

fun unexplode_loop :: "string list \<Rightarrow> string list \<Rightarrow> string list" where
  "unexplode_loop results [] = results"
| "unexplode_loop results (i # ips) = unexplode_loop (results @ [unexplode_part i]) ips"

definition unexplode_ip :: "string \<Rightarrow> string" where
  "unexplode_ip ip =
     (let ips = py_split CHR ''.'' ip in
      if length ips = 4 then py_join ''.'' (unexplode_loop [] ips)
      else
        let ips = py_split CHR '':'' ip in
        if length ips > 1 then py_join '':'' (unexplode_loop [] ips)
        else ip)"

section \<open>Exceptions\<close>

text \<open>
  The exceptions that the modelled functions can let escape. A function that
  may raise returns \<open>error + 'a\<close>, with \<open>Inl\<close> for the exception.
\<close>

datatype error = ValueError | TypeError | KeyError | IndexError | NameError | AttributeError

section \<open>lib\_peeringdb.py: unexplode\_ip on Python values\<close>

text \<open>
  Python checks types when an operation runs. To state that \<^verbatim>\<open>unexplode_ip\<close>
  raises nothing, the function is modelled a second time on Python values,
  each operation of its body with the exception it raises on a value of the
  wrong type: \<^verbatim>\<open>ip.split(sep)\<close> exists for a string only, \<^verbatim>\<open>len\<close> wants a
  string or a list, \<^verbatim>\<open>for i in ips\<close> an iterable, \<^verbatim>\<open>re.sub\<close> a string, and
  \<^verbatim>\<open>joinchar.join(results)\<close> a list of strings.
\<close>

datatype pyval = PyNone | PyInt int | PyStr string | PyList "pyval list"

fun split_method :: "pyval \<Rightarrow> char \<Rightarrow> error + pyval" where
  "split_method (PyStr s) sep = Inr (PyList (map PyStr (py_split sep s)))"
| "split_method _ sep = Inl AttributeError"

fun len :: "pyval \<Rightarrow> error + nat" where
  "len (PyStr s) = Inr (length s)"
| "len (PyList xs) = Inr (length xs)"
| "len _ = Inl TypeError"

fun iter :: "pyval \<Rightarrow> error + pyval list" where
  "iter (PyList xs) = Inr xs"
| "iter (PyStr s) = Inr (map (\<lambda>c. PyStr [c]) s)"
| "iter _ = Inl TypeError"

fun re_sub_leading_zeros_dyn :: "pyval \<Rightarrow> error + pyval" where
  "re_sub_leading_zeros_dyn (PyStr s) = Inr (PyStr (re_sub_leading_zeros s))"
| "re_sub_leading_zeros_dyn _ = Inl TypeError"

fun join_items :: "pyval list \<Rightarrow> error + string list" where
  "join_items [] = Inr []"
| "join_items (PyStr s # rest) =
     (case join_items rest of Inl e \<Rightarrow> Inl e | Inr ws \<Rightarrow> Inr (s # ws))"
| "join_items (_ # rest) = Inl TypeError"

definition join_method :: "string \<Rightarrow> pyval list \<Rightarrow> error + pyval" where
  "join_method joinchar results =
     (case join_items results of
        Inl e \<Rightarrow> Inl e
      | Inr ws \<Rightarrow> Inr (PyStr (py_join joinchar ws)))"

fun unexplode_loop_dyn :: "pyval list \<Rightarrow> pyval list \<Rightarrow> error + pyval list" where
  "unexplode_loop_dyn results [] = Inr results"
| "unexplode_loop_dyn results (i # rest) =
     (case re_sub_leading_zeros_dyn i of
        Inl e \<Rightarrow> Inl e
      | Inr i' \<Rightarrow>
          (case len i' of
             Inl e \<Rightarrow> Inl e
           | Inr n \<Rightarrow>
               unexplode_loop_dyn (results @ [if n = 0 then PyStr ''0'' else i']) rest))"

text \<open>The part of the body after the separator has been chosen.\<close>

definition unexplode_join_dyn :: "string \<Rightarrow> pyval \<Rightarrow> error + pyval" where
  "unexplode_join_dyn joinchar ips =
     (case iter ips of
        Inl e \<Rightarrow> Inl e
      | Inr items \<Rightarrow>
          (case unexplode_loop_dyn [] items of
             Inl e \<Rightarrow> Inl e
           | Inr results \<Rightarrow> join_method joinchar results))"

definition unexplode_ip_dyn :: "pyval \<Rightarrow> error + pyval" where
  "unexplode_ip_dyn ip =
     (case split_method ip CHR ''.'' of
        Inl e \<Rightarrow> Inl e
      | Inr ips \<Rightarrow>
          (case len ips of
             Inl e \<Rightarrow> Inl e
           | Inr n \<Rightarrow>
               if n = 4 then unexplode_join_dyn ''.'' ips
               else
                 (case split_method ip CHR '':'' of
                    Inl e \<Rightarrow> Inl e
                  | Inr ips \<Rightarrow>
                      (case len ips of
                         Inl e \<Rightarrow> Inl e
                       | Inr n \<Rightarrow>
                           if n > 1 then unexplode_join_dyn '':'' ips
                           else Inr ip))))"

section \<open>The objects of Python's ipaddress module\<close>

text \<open>
  The repository relies on the standard module \<^verbatim>\<open>ipaddress\<close>. Its address and
  network objects are modelled by their integer values: an address by its
  number, a network by its network address and prefix length.
\<close>

datatype address = IPv4Address nat | IPv6Address nat

datatype network = IPv4Network nat nat | IPv6Network nat nat

fun address_version :: "address \<Rightarrow> nat" where
  "address_version (IPv4Address _) = 4"
| "address_version (IPv6Address _) = 6"

fun version :: "network \<Rightarrow> nat" where
  "version (IPv4Network _ _) = 4"
| "version (IPv6Network _ _) = 6"

fun max_prefixlen :: "network \<Rightarrow> nat" where
  "max_prefixlen (IPv4Network _ _) = 32"
| "max_prefixlen (IPv6Network _ _) = 128"

fun network_address :: "network \<Rightarrow> nat" where
  "network_address (IPv4Network a _) = a"
| "network_address (IPv6Network a _) = a"

fun prefixlen :: "network \<Rightarrow> nat" where
  "prefixlen (IPv4Network _ l) = l"
| "prefixlen (IPv6Network _ l) = l"

definition hostmask :: "network \<Rightarrow> nat" where
  "hostmask n = 2 ^ (max_prefixlen n - prefixlen n) - 1"

definition broadcast_address :: "network \<Rightarrow> nat" where
  "broadcast_address n = network_address n OR hostmask n"

text \<open>
  \<^verbatim>\<open>a.subnet_of(b)\<close>: networks of different versions are not compared, the
  method raises \<^verbatim>\<open>TypeError\<close>; otherwise the address range of \<open>a\<close> lies within
  the range of \<open>b\<close>.
\<close>

definition subnet_of :: "network \<Rightarrow> network \<Rightarrow> error + bool" where
  "subnet_of a b =
     (if version a \<noteq> version b then Inl TypeError
      else Inr (network_address b \<le> network_address a
                \<and> broadcast_address a \<le> broadcast_address b))"

text \<open>Decimal and hexadecimal text of a number.\<close>

definition digit_char :: "nat \<Rightarrow> char" where
  "digit_char d = ''0123456789abcdef'' ! d"

fun str_nat :: "nat \<Rightarrow> string" where
  "str_nat n = (if n < 10 then [digit_char n] else str_nat (n div 10) @ [digit_char (n mod 10)])"

declare str_nat.simps [simp del]

definition str_int :: "int \<Rightarrow> string" where
  "str_int i = (if i < 0 then CHR ''-'' # str_nat (nat (- i)) else str_nat (nat i))"

definition hextet :: "nat \<Rightarrow> string" where
  "hextet g = [digit_char (g div 4096 mod 16), digit_char (g div 256 mod 16),
               digit_char (g div 16 mod 16), digit_char (g mod 16)]"

text \<open>
  \<^verbatim>\<open>addr.exploded\<close>: eight groups of four lower-case hexadecimal digits for an
  IPv6 address, the dotted quad for an IPv4 address.
\<close>

fun exploded :: "address \<Rightarrow> string" where
  "exploded (IPv6Address n) =
     py_join '':'' (map (\<lambda>i. hextet (n div 2 ^ (16 * i) mod 65536)) [7, 6, 5, 4, 3, 2, 1, 0])"
| "exploded (IPv4Address n) =
     py_join ''.'' (map (\<lambda>i. str_nat (n div 2 ^ (8 * i) mod 256)) [3, 2, 1, 0])"

text \<open>
  The two parsers of the module that the repository calls. The general results
  below hold for any pair of parsers; \<open>py_ipaddress\<close> further down is the one
  the examples run on.
\<close>

record ipaddress =
  ip_network :: "string \<Rightarrow> error + network"
  ip_address :: "string \<Rightarrow> error + address"

section \<open>Directory records and the query functions\<close>

text \<open>
  The fields of the PeeringDB objects that the modelled functions read:
  \<^verbatim>\<open>ixpfx\<close> (\<^verbatim>\<open>id\<close>, \<^verbatim>\<open>ixlan_id\<close>, \<^verbatim>\<open>prefix\<close>), \<^verbatim>\<open>ixlan\<close> (\<^verbatim>\<open>id\<close>, \<^verbatim>\<open>ix_id\<close>),
  \<^verbatim>\<open>ix\<close> (\<^verbatim>\<open>id\<close>, \<^verbatim>\<open>name\<close>) and \<^verbatim>\<open>netixlan\<close>.
\<close>

record ixpfx =
  ixpfx_id :: int
  ixpfx_ixlan_id :: int
  ixpfx_prefix :: string

record ixlan =
  ixlan_id :: int
  ixlan_ix_id :: int

record ix =
  ix_id :: int
  ix_name :: string

record netixlan =
  netixlan_ixlan_id :: int
  netixlan_name :: string
  netixlan_asn :: int
  netixlan_ipaddr4 :: "string option"
  netixlan_ipaddr6 :: "string option"

text \<open>
  The query functions fetch from the remote directory; they are parameters of
  the model. Each gives the \<^verbatim>\<open>"data"\<close> list of the answer, or \<open>None\<close> when the
  answer has no \<^verbatim>\<open>"data"\<close> key (the library's comment: "data" might be missing),
  in which case the subscript \<^verbatim>\<open>["data"]\<close> raises \<^verbatim>\<open>KeyError\<close>.

  \<^verbatim>\<open>getixpfxlist_by_partial\<close> is a function of the module. \<^verbatim>\<open>getixlan_by_id\<close>
  and \<^verbatim>\<open>getixp_by_id\<close> are global names that \<^verbatim>\<open>one_ixp_by_ixpfx\<close> looks up
  when it runs; the module binds neither of them (its queries by identifier are
  called \<^verbatim>\<open>pdb_ixlan_by_id\<close> and \<^verbatim>\<open>pdb_ix_by_id\<close>). Such a field is \<open>None\<close>
  when the name is unbound, and the call then raises \<^verbatim>\<open>NameError\<close>; it is
  \<open>Some\<close> of the function when a caller has bound the name.
\<close>

record facade =
  getixpfxlist_by_partial :: "string \<Rightarrow> ixpfx list option"
  getixlan_by_id :: "(int \<Rightarrow> ixlan list option) option"
  getixp_by_id :: "(int \<Rightarrow> ix list option) option"

text \<open>The module as it stands: the two names unbound.\<close>

definition as_shipped :: "facade \<Rightarrow> facade" where
  "as_shipped F = F\<lparr>getixlan_by_id := None, getixp_by_id := None\<rparr>"

section \<open>lib\_peeringdb.py: the resolver\<close>

definition one_ixp_by_ixpfx :: "facade \<Rightarrow> ixpfx \<Rightarrow> error + ix option" where
  "one_ixp_by_ixpfx F ixpfx =
     (case getixlan_by_id F of
        None \<Rightarrow> Inl NameError
      | Some getixlan \<Rightarrow>
          (case getixlan (ixpfx_ixlan_id ixpfx) of
             None \<Rightarrow> Inl KeyError
           | Some ixlans \<Rightarrow>
               if length ixlans = 0 then Inr None
               else
                 (case getixp_by_id F of
                    None \<Rightarrow> Inl NameError
                  | Some getixp \<Rightarrow>
                      (case getixp (ixlan_ix_id (ixlans ! 0)) of
                         None \<Rightarrow> Inl KeyError
                       | Some data \<Rightarrow>
                           if length data > 0 then Inr (Some (data ! 0)) else Inr None))))"

text \<open>
  The candidate loop shared by \<^verbatim>\<open>getixp_by_ipv4\<close> and \<^verbatim>\<open>getixp_by_ipv6\<close>:
  \<^verbatim>\<open>
  ixpfx=None
  for ixpfx in data:
      try:
          net = ipaddress.ip_network(ixpfx["prefix"])
      except:
          continue
      if v4net.subnet_of(net): break
  \<close>
  The third argument is the value of the variable \<^verbatim>\<open>ixpfx\<close>; the \<^verbatim>\<open>for\<close>
  statement assigns it before the body runs. The result is its value after the
  loop. The call of \<^verbatim>\<open>subnet_of\<close> stands outside the \<^verbatim>\<open>try\<close>.
\<close>

fun scan_ixpfx :: "ipaddress \<Rightarrow> network \<Rightarrow> ixpfx option \<Rightarrow> ixpfx list \<Rightarrow> error + ixpfx option" where
  "scan_ixpfx L vnet ixpfx [] = Inr ixpfx"
| "scan_ixpfx L vnet ixpfx (p # data) =
     (case ip_network L (ixpfx_prefix p) of
        Inl _ \<Rightarrow> scan_ixpfx L vnet (Some p) data
      | Inr net \<Rightarrow>
          (case subnet_of vnet net of
             Inl e \<Rightarrow> Inl e
           | Inr True \<Rightarrow> Inr (Some p)
           | Inr False \<Rightarrow> scan_ixpfx L vnet (Some p) data))"

text \<open>
  The tail of both resolvers: \<^verbatim>\<open>if ixpfx==None: return None\<close>, then
  \<^verbatim>\<open>return getixp_by_ixpfx(ixpfx)\<close>. \<^verbatim>\<open>getixp_by_ixpfx\<close> is a global name
  that the module never binds: the argument is \<open>None\<close> for the module as it
  stands, and the call raises \<^verbatim>\<open>NameError\<close>; it is \<open>Some\<close> of a function when
  a caller has bound the name, for instance to \<^verbatim>\<open>one_ixp_by_ixpfx\<close>.
\<close>

definition resolve_scanned ::
  "(ixpfx \<Rightarrow> error + ix option) option \<Rightarrow> error + ixpfx option \<Rightarrow> error + ix option" where
  "resolve_scanned getixp_by_ixpfx r =
     (case r of
        Inl e \<Rightarrow> Inl e
      | Inr None \<Rightarrow> Inr None
      | Inr (Some ixpfx) \<Rightarrow>
          (case getixp_by_ixpfx of
             None \<Rightarrow> Inl NameError
           | Some g \<Rightarrow> g ixpfx))"

definition v4partial_of :: "string \<Rightarrow> error + string" where
  "v4partial_of v4 =
     (let v4arr = py_split CHR ''.'' v4 in
      if length v4arr < 2 then Inl IndexError
      else Inr (v4arr ! 0 @ ''.'' @ v4arr ! 1))"

definition getixp_by_ipv4 ::
  "ipaddress \<Rightarrow> facade \<Rightarrow> (ixpfx \<Rightarrow> error + ix option) option \<Rightarrow> string
   \<Rightarrow> error + ix option" where
  "getixp_by_ipv4 L F getixp_by_ixpfx v4 =
     (case ip_network L (v4 @ ''/32'') of
        Inl e \<Rightarrow> Inl e
      | Inr v4net \<Rightarrow>
          (case v4partial_of v4 of
             Inl e \<Rightarrow> Inl e
           | Inr v4partial \<Rightarrow>
               (case getixpfxlist_by_partial F v4partial of
                  None \<Rightarrow> Inl KeyError
                | Some data \<Rightarrow>
                    resolve_scanned getixp_by_ixpfx (scan_ixpfx L v4net None data))))"

text \<open>
  The loop that builds \<^verbatim>\<open>resultarr\<close> in \<^verbatim>\<open>getixp_by_ipv6\<close>, over the reversed
  groups, with the flag \<^verbatim>\<open>atend\<close>; \<^verbatim>\<open>resultarr.insert(0, part)\<close> puts the
  group in front.
\<close>

fun v6partial_loop :: "string list \<Rightarrow> bool \<Rightarrow> string list \<Rightarrow> string list" where
  "v6partial_loop resultarr atend [] = resultarr"
| "v6partial_loop resultarr atend (part # parts) =
     (if part = ''0000'' \<and> atend then v6partial_loop resultarr atend parts
      else
        let part' = re_sub_leading_zeros part;
            part'' = (if part' = [] then ''0'' else part')
        in v6partial_loop (part'' # resultarr) False parts)"

definition v6partial_of :: "string \<Rightarrow> string" where
  "v6partial_of v6full =
     (let v6arr = take 6 (py_split CHR '':'' v6full);
          resultarr = v6partial_loop [] True (rev v6arr)
      in py_join '':'' (take 6 resultarr))"

text \<open>
  The key that \<^verbatim>\<open>getixp_by_ipv6\<close> sends to the query: the address is parsed,
  expanded and reduced.
\<close>

definition v6partial_key :: "ipaddress \<Rightarrow> string \<Rightarrow> error + string" where
  "v6partial_key L v6 =
     (case ip_address L v6 of
        Inl e \<Rightarrow> Inl e
      | Inr v6add \<Rightarrow> Inr (v6partial_of (exploded v6add)))"

definition getixp_by_ipv6 ::
  "ipaddress \<Rightarrow> facade \<Rightarrow> (ixpfx \<Rightarrow> error + ix option) option \<Rightarrow> string
   \<Rightarrow> error + ix option" where
  "getixp_by_ipv6 L F getixp_by_ixpfx v6 =
     (case ip_network L (v6 @ ''/128'') of
        Inl e \<Rightarrow> Inl e
      | Inr v6net \<Rightarrow>
          (case v6partial_key L v6 of
             Inl e \<Rightarrow> Inl e
           | Inr v6partial \<Rightarrow>
               (case getixpfxlist_by_partial F v6partial of
                  None \<Rightarrow> Inl KeyError
                | Some data \<Rightarrow>
                    resolve_scanned getixp_by_ixpfx (scan_ixpfx L v6net None data))))"

definition getixp_by_ip ::
  "ipaddress \<Rightarrow> facade \<Rightarrow> (ixpfx \<Rightarrow> error + ix option) option \<Rightarrow> string
   \<Rightarrow> error + ix option" where
  "getixp_by_ip L F getixp_by_ixpfx ip0 =
     (let ip = unexplode_ip ip0 in
      case ip_address L ip of
        Inl e \<Rightarrow> Inl e
      | Inr addr \<Rightarrow>
          if address_version addr = 4 then getixp_by_ipv4 L F getixp_by_ixpfx ip
          else if address_version addr = 6 then getixp_by_ipv6 L F getixp_by_ixpfx ip
          else Inr None)"

section \<open>pdb-intersect.py: ixlan\_intersect\<close>

text \<open>
  The two grouping loops. A Python dictionary keeps its keys in insertion
  order, so it is an association list here: \<open>AList.update\<close> replaces the
  value of a key in place and appends a new key at the end. \<open>bucket\<close> is the
  list found under \<^verbatim>\<open>key\<close> after the line \<^verbatim>\<open>if key not in ...: ...[key] = []\<close>.
\<close>

fun group_by_ixlanid ::
  "(int \<times> netixlan list) list \<Rightarrow> netixlan list \<Rightarrow> (int \<times> netixlan list) list" where
  "group_by_ixlanid d [] = d"
| "group_by_ixlanid d (netixlan # rest) =
     (let key = netixlan_ixlan_id netixlan;
          bucket = (case map_of d key of None \<Rightarrow> [] | Some b \<Rightarrow> b)
      in group_by_ixlanid (AList.update key (bucket @ [netixlan]) d) rest)"

definition str_opt :: "string option \<Rightarrow> string" where
  "str_opt v = (case v of None \<Rightarrow> ''None'' | Some s \<Rightarrow> s)"

definition item_text :: "netixlan \<Rightarrow> string" where
  "item_text ni =
     py_join [CHR 0x0A]
       [''ASN:  '' @ str_int (netixlan_asn ni),
        ''IPv4: '' @ str_opt (netixlan_ipaddr4 ni),
        ''IPv6: '' @ str_opt (netixlan_ipaddr6 ni)]"

type_synonym row = "string \<times> string \<times> string"

text \<open>
  The loop over \<^verbatim>\<open>ixlans_common\<close>; the accumulator is the sequence of rows
  passed to \<^verbatim>\<open>tab.add_row\<close>. A missing key or an empty bucket would raise.
\<close>

fun add_rows ::
  "(int \<times> netixlan list) list \<Rightarrow> (int \<times> netixlan list) list \<Rightarrow> row list \<Rightarrow> int list
   \<Rightarrow> error + row list" where
  "add_rows d1 d2 tab [] = Inr tab"
| "add_rows d1 d2 tab (ixlanid # rest) =
     (case map_of d1 ixlanid of
        None \<Rightarrow> Inl KeyError
      | Some netixlans1 \<Rightarrow>
          (case map_of d2 ixlanid of
             None \<Rightarrow> Inl KeyError
           | Some netixlans2 \<Rightarrow>
               (case netixlans1 of
                  [] \<Rightarrow> Inl IndexError
                | first # _ \<Rightarrow>
                    add_rows d1 d2
                      (tab @ [(netixlan_name first,
                               py_join [CHR 0x0A, CHR 0x0A] (map item_text netixlans1),
                               py_join [CHR 0x0A, CHR 0x0A] (map item_text netixlans2))])
                      rest)))"

text \<open>
  \<^verbatim>\<open>ixlan_intersect\<close> returns nothing and adds its rows to the global table;
  the model returns the rows added. Python fixes no iteration order for the
  set \<^verbatim>\<open>ixlans_common\<close>: the rows are produced here in the order of the keys
  of the first dictionary, and no result below depends on that order.
\<close>

definition ixlan_intersect :: "netixlan list \<Rightarrow> netixlan list \<Rightarrow> error + row list" where
  "ixlan_intersect netixlan1 netixlan2 =
     (let netixlans1_by_ixlanid = group_by_ixlanid [] netixlan1;
          netixlans2_by_ixlanid = group_by_ixlanid [] netixlan2;
          ixlans1 = map fst netixlans1_by_ixlanid;
          ixlans2 = map fst netixlans2_by_ixlanid;
          ixlans_common = filter (\<lambda>k. k \<in> set ixlans2) ixlans1
      in add_rows netixlans1_by_ixlanid netixlans2_by_ixlanid [] ixlans_common)"

section \<open>A reference parser for the examples\<close>

text \<open>
  The text forms of \<^verbatim>\<open>ipaddress\<close> that the examples use, after the module's
  own algorithm: a dotted quad of decimal octets (at most three digits, no
  leading zero, at most 255), eight groups of one to four hexadecimal digits
  with at most one \<^verbatim>\<open>::\<close>, and a decimal prefix length after \<^verbatim>\<open>/\<close>; a
  network with host bits set is refused (the module's strict mode). Netmask
  notation, an embedded dotted quad in an IPv6 address and zone identifiers are
  not covered and count as parse failures.
\<close>

definition dec_value :: "char \<Rightarrow> nat option" where
  "dec_value c =
     (let k = (of_char c :: nat) in if 48 \<le> k \<and> k \<le> 57 then Some (k - 48) else None)"

definition hex_value :: "char \<Rightarrow> nat option" where
  "hex_value c =
     (let k = (of_char c :: nat) in
      if 48 \<le> k \<and> k \<le> 57 then Some (k - 48)
      else if 97 \<le> k \<and> k \<le> 102 then Some (k - 87)
      else if 65 \<le> k \<and> k \<le> 70 then Some (k - 55)
      else None)"

fun int_of_digits :: "nat \<Rightarrow> (char \<Rightarrow> nat option) \<Rightarrow> nat \<Rightarrow> string \<Rightarrow> nat option" where
  "int_of_digits b dv acc [] = Some acc"
| "int_of_digits b dv acc (c # cs) =
     (case dv c of None \<Rightarrow> None | Some d \<Rightarrow> int_of_digits b dv (acc * b + d) cs)"

fun all_some :: "'a option list \<Rightarrow> 'a list option" where
  "all_some [] = Some []"
| "all_some (None # _) = None"
| "all_some (Some x # xs) = (case all_some xs of None \<Rightarrow> None | Some ys \<Rightarrow> Some (x # ys))"

definition parse_octet :: "string \<Rightarrow> nat option" where
  "parse_octet s =
     (if s = [] \<or> length s > 3 \<or> (s \<noteq> ''0'' \<and> hd s = CHR ''0'') then None
      else
        (case int_of_digits 10 dec_value 0 s of
           None \<Rightarrow> None
         | Some n \<Rightarrow> if n > 255 then None else Some n))"

definition parse_ipv4_address :: "string \<Rightarrow> nat option" where
  "parse_ipv4_address s =
     (let octets = py_split CHR ''.'' s in
      if length octets \<noteq> 4 then None
      else
        (case all_some (map parse_octet octets) of
           None \<Rightarrow> None
         | Some os \<Rightarrow> Some (foldl (\<lambda>acc v. acc * 256 + v) 0 os)))"

definition parse_hextet :: "string \<Rightarrow> nat option" where
  "parse_hextet s =
     (if s = [] \<or> length s > 4 then None else int_of_digits 16 hex_value 0 s)"

definition groups_value :: "nat list \<Rightarrow> nat" where
  "groups_value gs = foldl (\<lambda>acc g. acc * 65536 + g) 0 gs"

definition parse_ipv6_address :: "string \<Rightarrow> nat option" where
  "parse_ipv6_address s =
     (let parts = py_split CHR '':'' s; n = length parts in
      if n < 3 \<or> n > 9 then None
      else
        (case filter (\<lambda>i. parts ! i = []) [1..<n - 1] of
           [] \<Rightarrow>
             if n \<noteq> 8 \<or> parts ! 0 = [] \<or> parts ! (n - 1) = [] then None
             else map_option groups_value (all_some (map parse_hextet parts))
         | [skip_index] \<Rightarrow>
             let head_empty = (parts ! 0 = []);
                 last_empty = (parts ! (n - 1) = []);
                 parts_hi = (if head_empty then skip_index - 1 else skip_index);
                 parts_lo = (if last_empty then n - skip_index - 2 else n - skip_index - 1)
             in
               if (head_empty \<and> parts_hi \<noteq> 0) \<or> (last_empty \<and> parts_lo \<noteq> 0)
                  \<or> parts_hi + parts_lo \<ge> 8 then None
               else
                 (case (all_some (map parse_hextet (take parts_hi parts)),
                        all_some (map parse_hextet (drop (n - parts_lo) parts))) of
                    (Some hi, Some lo) \<Rightarrow>
                      Some (groups_value hi * 2 ^ (16 * (8 - parts_hi)) + groups_value lo)
                  | _ \<Rightarrow> None)
         | _ \<Rightarrow> None))"

definition parse_prefixlen :: "nat \<Rightarrow> string \<Rightarrow> nat option" where
  "parse_prefixlen maxlen s =
     (if s = [] then None
      else
        (case int_of_digits 10 dec_value 0 s of
           None \<Rightarrow> None
         | Some n \<Rightarrow> if n > maxlen then None else Some n))"

definition parse_network ::
  "(string \<Rightarrow> nat option) \<Rightarrow> nat \<Rightarrow> (nat \<Rightarrow> nat \<Rightarrow> network) \<Rightarrow> string \<Rightarrow> network option" where
  "parse_network parse_address maxlen mk s =
     (let parts = py_split CHR ''/'' s in
      if length parts > 2 then None
      else
        (case parse_address (parts ! 0) of
           None \<Rightarrow> None
         | Some a \<Rightarrow>
             (case (if length parts = 2 then parse_prefixlen maxlen (parts ! 1) else Some maxlen) of
                None \<Rightarrow> None
              | Some l \<Rightarrow> if a mod 2 ^ (maxlen - l) \<noteq> 0 then None else Some (mk a l))))"

definition py_ip_network :: "string \<Rightarrow> error + network" where
  "py_ip_network s =
     (case parse_network parse_ipv4_address 32 IPv4Network s of
        Some n \<Rightarrow> Inr n
      | None \<Rightarrow>
          (case parse_network parse_ipv6_address 128 IPv6Network s of
             Some n \<Rightarrow> Inr n
           | None \<Rightarrow> Inl ValueError))"

definition py_ip_address :: "string \<Rightarrow> error + address" where
  "py_ip_address s =
     (case parse_ipv4_address s of
        Some a \<Rightarrow> Inr (IPv4Address a)
      | None \<Rightarrow>
          (case parse_ipv6_address s of
             Some a \<Rightarrow> Inr (IPv6Address a)
           | None \<Rightarrow> Inl ValueError))"

definition py_ipaddress :: ipaddress where
  "py_ipaddress = \<lparr>ip_network = py_ip_network, ip_address = py_ip_address\<rparr>"

section \<open>An in-memory directory\<close>

text \<open>
  Modelled from the spec: the Directory Query Facade, which the library reaches
  over HTTP. Section 6 of the specification describes it as a filter over the
  records of the directory that returns an ordered, exhaustive collection:
  exact match on the identifier for \<^verbatim>\<open>ixlan\<close> and \<^verbatim>\<open>ix\<close>, and the starts-with
  text filter \<^verbatim>\<open>prefix__startswith\<close> for \<^verbatim>\<open>ixpfx\<close>. \<open>directory_facade\<close> is the
  module repaired: the two unbound names are bound to the queries by
  identifier. \<open>as_shipped (directory_facade d)\<close> is the module as it stands in
  front of the same directory.
\<close>

record directory =
  ixpfx_rows :: "ixpfx list"
  ixlan_rows :: "ixlan list"
  ix_rows :: "ix list"

definition directory_facade :: "directory \<Rightarrow> facade" where
  "directory_facade d =
     \<lparr>getixpfxlist_by_partial =
        (\<lambda>partial. Some (filter (\<lambda>r. prefix partial (ixpfx_prefix r)) (ixpfx_rows d))),
      getixlan_by_id = Some (\<lambda>i. Some (filter (\<lambda>r. ixlan_id r = i) (ixlan_rows d))),
      getixp_by_id = Some (\<lambda>i. Some (filter (\<lambda>r. ix_id r = i) (ix_rows d)))\<rparr>"

section \<open>The specification's wording of the normalizer and of the coarse key\<close>

text \<open>
  The definitions of this section follow the words of the specification, not
  the code; they are compared with the code further down.

  "Every component has its leading zeros stripped, with an empty result
  defaulting to 0."
\<close>

definition strip_leading_zeros :: "string \<Rightarrow> string" where
  "strip_leading_zeros w =
     (if dropWhile (\<lambda>c. c = CHR ''0'') w = [] then ''0'' else dropWhile (\<lambda>c. c = CHR ''0'') w)"

text \<open>
  "Take the first 6 groups of the fully expanded form, drop trailing all-zero
  groups until the first non-zero group is seen from the back, strip leading
  zeros from the survivors, re-join with colons."
\<close>

definition coarse_key_v6_spec :: "string \<Rightarrow> string" where
  "coarse_key_v6_spec expanded =
     (let kept = take 6 (py_split CHR '':'' expanded);
          survivors = rev (dropWhile (\<lambda>g. g = ''0000'') (rev kept))
      in py_join '':'' (map strip_leading_zeros survivors))"

text \<open>
  A zero-padded variant of an address text: the same number of components,
  each one the original component with zeros put in front.
\<close>

definition zero_padded :: "string \<Rightarrow> string \<Rightarrow> bool" where
  "zero_padded a b \<longleftrightarrow>
     length a \<le> length b \<and> drop (length b - length a) b = a
     \<and> list_all (\<lambda>c. c = CHR ''0'') (take (length b - length a) b)"

definition zero_padded_variant :: "char \<Rightarrow> string \<Rightarrow> string \<Rightarrow> bool" where
  "zero_padded_variant sep x y \<longleftrightarrow> list_all2 zero_padded (py_split sep x) (py_split sep y)"

section \<open>Candidates and example directories\<close>

text \<open>
  What the loop does with one candidate, given the network of the queried
  address: the candidate matches (its prefix parses to a network that contains
  the address), or the containment test raises (its prefix parses to a network
  of the other version), or it is passed over.
\<close>

definition candidate_matches :: "ipaddress \<Rightarrow> network \<Rightarrow> ixpfx \<Rightarrow> bool" where
  "candidate_matches L vnet p =
     (case ip_network L (ixpfx_prefix p) of
        Inl _ \<Rightarrow> False
      | Inr net \<Rightarrow> subnet_of vnet net = Inr True)"

definition candidate_raises :: "ipaddress \<Rightarrow> network \<Rightarrow> ixpfx \<Rightarrow> bool" where
  "candidate_raises L vnet p =
     (case ip_network L (ixpfx_prefix p) of
        Inl _ \<Rightarrow> False
      | Inr net \<Rightarrow> version vnet \<noteq> version net)"

definition example_ix :: ix where
  "example_ix = \<lparr>ix_id = 7, ix_name = ''EX-IX''\<rparr>"

definition other_ix :: ix where
  "other_ix = \<lparr>ix_id = 8, ix_name = ''WIDE-IX''\<rparr>"

definition example_lans :: "ixlan list" where
  "example_lans = [\<lparr>ixlan_id = 10, ixlan_ix_id = 7\<rparr>, \<lparr>ixlan_id = 20, ixlan_ix_id = 8\<rparr>]"

text \<open>The example of the specification: one prefix, linked to exchange-lan 10.\<close>

definition example_directory :: directory where
  "example_directory =
     \<lparr>ixpfx_rows = [\<lparr>ixpfx_id = 1, ixpfx_ixlan_id = 10, ixpfx_prefix = ''198.51.100.0/24''\<rparr>],
      ixlan_rows = example_lans, ix_rows = [example_ix, other_ix]\<rparr>"

text \<open>A directory whose only prefix record carries an impossible prefix length.\<close>

definition malformed_directory :: directory where
  "malformed_directory =
     \<lparr>ixpfx_rows = [\<lparr>ixpfx_id = 1, ixpfx_ixlan_id = 10, ixpfx_prefix = ''198.51.100.0/33''\<rparr>],
      ixlan_rows = example_lans, ix_rows = [example_ix, other_ix]\<rparr>"

text \<open>Two overlapping prefixes, the wider one first.\<close>

definition overlap_directory :: directory where
  "overlap_directory =
     \<lparr>ixpfx_rows = [\<lparr>ixpfx_id = 2, ixpfx_ixlan_id = 20, ixpfx_prefix = ''198.51.0.0/16''\<rparr>,
                    \<lparr>ixpfx_id = 1, ixpfx_ixlan_id = 10, ixpfx_prefix = ''198.51.100.0/24''\<rparr>],
      ixlan_rows = example_lans, ix_rows = [example_ix, other_ix]\<rparr>"

text \<open>An IPv4 and an IPv6 prefix whose texts both start with \<^verbatim>\<open>1\<close>.\<close>

definition mixed_directory :: directory where
  "mixed_directory =
     \<lparr>ixpfx_rows = [\<lparr>ixpfx_id = 2, ixpfx_ixlan_id = 20, ixpfx_prefix = ''1.0.0.0/8''\<rparr>,
                    \<lparr>ixpfx_id = 1, ixpfx_ixlan_id = 10, ixpfx_prefix = ''1::/64''\<rparr>],
      ixlan_rows = example_lans, ix_rows = [example_ix, other_ix]\<rparr>"

text \<open>A single prefix shorter than sixteen bits.\<close>

definition wide_directory :: directory where
  "wide_directory =
     \<lparr>ixpfx_rows = [\<lparr>ixpfx_id = 1, ixpfx_ixlan_id = 10, ixpfx_prefix = ''198.0.0.0/8''\<rparr>],
      ixlan_rows = example_lans, ix_rows = [example_ix, other_ix]\<rparr>"

text \<open>A single IPv6 prefix.\<close>

definition v6_directory :: directory where
  "v6_directory =
     \<lparr>ixpfx_rows = [\<lparr>ixpfx_id = 1, ixpfx_ixlan_id = 10, ixpfx_prefix = ''2001:de8:6::/64''\<rparr>],
      ixlan_rows = example_lans, ix_rows = [example_ix, other_ix]\<rparr>"

text \<open>Directories with a broken chain: no exchange-lan 10, no exchange point 7.\<close>

definition no_lan_directory :: directory where
  "no_lan_directory =
     \<lparr>ixpfx_rows = [\<lparr>ixpfx_id = 1, ixpfx_ixlan_id = 10, ixpfx_prefix = ''198.51.100.0/24''\<rparr>],
      ixlan_rows = [], ix_rows = [example_ix]\<rparr>"

definition no_ix_directory :: directory where
  "no_ix_directory =
     \<lparr>ixpfx_rows = [\<lparr>ixpfx_id = 1, ixpfx_ixlan_id = 10, ixpfx_prefix = ''198.51.100.0/24''\<rparr>],
      ixlan_rows = example_lans, ix_rows = [other_ix]\<rparr>"

section \<open>Facts about splitting and joining\<close>

lemma py_split_not_Nil: "py_split c s \<noteq> []"
  by (induction s) (auto split: list.splits)

lemma py_split_no_sep: "w \<in> set (py_split c s) \<Longrightarrow> c \<notin> set w"
proof (induction s arbitrary: w)
  case Nil
  then show ?case by simp
next
  case (Cons x xs)
  obtain v vs where vs: "py_split c xs = v # vs"
    using py_split_not_Nil [of c xs] by (cases "py_split c xs") auto
  show ?case
  proof (cases "x = c")
    case True
    with Cons show ?thesis by auto
  next
    case False
    with Cons.prems vs have "w = x # v \<or> w \<in> set vs" by auto
    with Cons.IH vs False show ?thesis by auto
  qed
qed

lemma length_py_split: "length (py_split c s) = Suc (count_list s c)"
proof (induction s)
  case Nil
  then show ?case by simp
next
  case (Cons x xs)
  obtain v vs where vs: "py_split c xs = v # vs"
    using py_split_not_Nil [of c xs] by (cases "py_split c xs") auto
  with Cons show ?case by simp
qed

lemma py_split_no_occurrence: "c \<notin> set w \<Longrightarrow> py_split c w = [w]"
  by (induction w) auto

lemma py_split_append_sep: "c \<notin> set w \<Longrightarrow> py_split c (w @ c # r) = w # py_split c r"
  by (induction w) auto

lemma py_split_join:
  "ws \<noteq> [] \<Longrightarrow> \<forall>w \<in> set ws. c \<notin> set w \<Longrightarrow> py_split c (py_join [c] ws) = ws"
proof (induction ws)
  case Nil
  then show ?case by simp
next
  case (Cons w ws)
  show ?case
  proof (cases ws)
    case Nil
    with Cons.prems show ?thesis by (simp add: py_split_no_occurrence)
  next
    case (Cons v vs)
    with Cons.IH Cons.prems show ?thesis by (simp add: py_split_append_sep)
  qed
qed

lemma unexplode_loop_map: "unexplode_loop results ips = results @ map unexplode_part ips"
  by (induction ips arbitrary: results) auto

lemma unexplode_part_idem: "unexplode_part (unexplode_part i) = unexplode_part i"
proof (cases "dropWhile (\<lambda>c. c = CHR ''0'') i")
  case Nil
  then show ?thesis by (simp add: unexplode_part_def re_sub_leading_zeros_def)
next
  case (Cons a as)
  then have "a \<noteq> CHR ''0''"
    using hd_dropWhile [of "\<lambda>c. c = CHR ''0''" i] by auto
  with Cons show ?thesis by (simp add: unexplode_part_def re_sub_leading_zeros_def)
qed

lemma unexplode_part_no_sep:
  "c \<noteq> CHR ''0'' \<Longrightarrow> c \<notin> set i \<Longrightarrow> c \<notin> set (unexplode_part i)"
  by (auto simp: unexplode_part_def re_sub_leading_zeros_def Let_def dest: set_dropWhileD)

lemma count_list_dropWhile_other:
  "c \<noteq> d \<Longrightarrow> count_list (dropWhile (\<lambda>x. x = d) i) c = count_list i c"
  by (induction i) auto

lemma count_unexplode_part:
  "c \<noteq> CHR ''0'' \<Longrightarrow> count_list (unexplode_part i) c = count_list i c"
proof -
  assume c: "c \<noteq> CHR ''0''"
  have eq: "count_list (dropWhile (\<lambda>x. x = CHR ''0'') i) c = count_list i c"
    using c by (rule count_list_dropWhile_other)
  show ?thesis
  proof (cases "dropWhile (\<lambda>x. x = CHR ''0'') i")
    case Nil
    with eq c show ?thesis by (simp add: unexplode_part_def re_sub_leading_zeros_def)
  next
    case (Cons a as)
    with eq show ?thesis by (simp add: unexplode_part_def re_sub_leading_zeros_def)
  qed
qed

lemma count_list_py_join:
  "c \<notin> set sep \<Longrightarrow> count_list (py_join sep ws) c = sum_list (map (\<lambda>w. count_list w c) ws)"
  by (induction sep ws rule: py_join.induct) auto

lemma py_join_split: "py_join [c] (py_split c s) = s"
proof (induction s)
  case Nil
  then show ?case by simp
next
  case (Cons x xs)
  obtain v vs where vs: "py_split c xs = v # vs"
    using py_split_not_Nil [of c xs] by (cases "py_split c xs") auto
  show ?case
  proof (cases "x = c")
    case True
    with Cons vs show ?thesis by simp
  next
    case False
    with Cons vs show ?thesis by (cases vs) auto
  qed
qed

lemma count_join_unexplode:
  assumes "c \<noteq> CHR ''0''" "c \<noteq> d"
  shows "count_list (py_join [d] (map unexplode_part (py_split d s))) c = count_list s c"
proof -
  have "count_list (py_join [d] (map unexplode_part (py_split d s))) c
        = sum_list (map (\<lambda>w. count_list w c) (py_split d s))"
    using assms by (simp add: count_list_py_join comp_def count_unexplode_part)
  also have "\<dots> = count_list (py_join [d] (py_split d s)) c"
    using assms by (simp add: count_list_py_join)
  finally show ?thesis by (simp add: py_join_split)
qed

lemma split_join_unexplode:
  assumes "c \<noteq> CHR ''0''"
  shows "py_split c (py_join [c] (map unexplode_part (py_split c s)))
         = map unexplode_part (py_split c s)"
proof (rule py_split_join)
  show "map unexplode_part (py_split c s) \<noteq> []"
    by (simp add: py_split_not_Nil)
  show "\<forall>w \<in> set (map unexplode_part (py_split c s)). c \<notin> set w"
    using assms unexplode_part_no_sep [of c] py_split_no_sep [of _ c s] by auto
qed

section \<open>Claims about unexplode\_ip\<close>

text \<open>
  C6. The address normalizer \<^verbatim>\<open>unexplode_ip\<close> is idempotent: applying it twice
  gives the same result as applying it once. This holds for every string, so
  in particular for every valid IPv4 or IPv6 address string.
\<close>

theorem unexplode_ip_idempotent: "unexplode_ip (unexplode_ip x) = unexplode_ip x"
proof (cases "length (py_split CHR ''.'' x) = 4")
  case True
  let ?r = "py_join ''.'' (map unexplode_part (py_split CHR ''.'' x))"
  have r: "unexplode_ip x = ?r"
    using True by (simp add: unexplode_ip_def unexplode_loop_map)
  have s: "py_split CHR ''.'' ?r = map unexplode_part (py_split CHR ''.'' x)"
    using split_join_unexplode [of "CHR ''.''" x] by simp
  have "unexplode_ip ?r = py_join ''.'' (map unexplode_part (map unexplode_part (py_split CHR ''.'' x)))"
    using True by (simp add: unexplode_ip_def [of ?r] s unexplode_loop_map)
  also have "\<dots> = ?r" by (simp add: unexplode_part_idem comp_def)
  finally show ?thesis using r by simp
next
  case no4: False
  show ?thesis
  proof (cases "length (py_split CHR '':'' x) > 1")
    case True
    let ?r = "py_join '':'' (map unexplode_part (py_split CHR '':'' x))"
    have r: "unexplode_ip x = ?r"
      using no4 True by (simp add: unexplode_ip_def unexplode_loop_map)
    have "count_list ?r CHR ''.'' = count_list x CHR ''.''"
      using count_join_unexplode [of "CHR ''.''" "CHR '':''" x] by simp
    then have d: "length (py_split CHR ''.'' ?r) \<noteq> 4"
      using no4 by (simp add: length_py_split)
    have s: "py_split CHR '':'' ?r = map unexplode_part (py_split CHR '':'' x)"
      using split_join_unexplode [of "CHR '':''" x] by simp
    have "unexplode_ip ?r = py_join '':'' (map unexplode_part (map unexplode_part (py_split CHR '':'' x)))"
      using True d by (simp add: unexplode_ip_def [of ?r] s unexplode_loop_map)
    also have "\<dots> = ?r" by (simp add: unexplode_part_idem comp_def)
    finally show ?thesis using r by simp
  next
    case False
    then have "unexplode_ip x = x"
      using no4 by (simp add: unexplode_ip_def)
    then show ?thesis by simp
  qed
qed

section \<open>The candidate loop\<close>

lemmas parser_defs =
  py_ipaddress_def py_ip_network_def py_ip_address_def parse_network_def parse_prefixlen_def
  parse_ipv4_address_def parse_ipv6_address_def parse_octet_def parse_hextet_def
  dec_value_def hex_value_def groups_value_def

lemmas resolver_defs =
  getixp_by_ip_def getixp_by_ipv4_def getixp_by_ipv6_def resolve_scanned_def v4partial_of_def
  v6partial_key_def
  one_ixp_by_ixpfx_def directory_facade_def as_shipped_def unexplode_ip_def unexplode_part_def
  re_sub_leading_zeros_def subnet_of_def broadcast_address_def hostmask_def
  candidate_matches_def candidate_raises_def

lemma scan_ixpfx_step_match:
  "candidate_matches L vnet p \<Longrightarrow> scan_ixpfx L vnet cur (p # data) = Inr (Some p)"
  by (auto simp: candidate_matches_def split: sum.splits)

lemma scan_ixpfx_step_skip:
  "\<not> candidate_matches L vnet p \<Longrightarrow> \<not> candidate_raises L vnet p \<Longrightarrow>
   scan_ixpfx L vnet cur (p # data) = scan_ixpfx L vnet (Some p) data"
  by (auto simp: candidate_matches_def candidate_raises_def subnet_of_def
           split: sum.splits bool.splits if_splits)

lemma scan_ixpfx_step_raise:
  "candidate_raises L vnet p \<Longrightarrow> scan_ixpfx L vnet cur (p # data) = Inl TypeError"
  by (auto simp: candidate_raises_def subnet_of_def split: sum.splits bool.splits if_splits)

lemma scan_ixpfx_first_match:
  assumes "find (candidate_matches L vnet) data = Some p"
    and "\<forall>q \<in> set (takeWhile (\<lambda>q. \<not> candidate_matches L vnet q) data). \<not> candidate_raises L vnet q"
  shows "scan_ixpfx L vnet cur data = Inr (Some p)"
  using assms
proof (induction data arbitrary: cur)
  case Nil
  then show ?case by simp
next
  case (Cons q data)
  show ?case
  proof (cases "candidate_matches L vnet q")
    case True
    with Cons.prems show ?thesis by (simp add: scan_ixpfx_step_match del: scan_ixpfx.simps)
  next
    case False
    with Cons.prems have "\<not> candidate_raises L vnet q" by simp
    with False have "scan_ixpfx L vnet cur (q # data) = scan_ixpfx L vnet (Some q) data"
      by (rule scan_ixpfx_step_skip)
    moreover have "scan_ixpfx L vnet (Some q) data = Inr (Some p)"
      using Cons.prems False by (intro Cons.IH) simp_all
    ultimately show ?thesis by simp
  qed
qed

lemma scan_ixpfx_no_match:
  assumes "\<forall>q \<in> set data. \<not> candidate_matches L vnet q \<and> \<not> candidate_raises L vnet q"
  shows "scan_ixpfx L vnet cur data = Inr (if data = [] then cur else Some (last data))"
  using assms
proof (induction data arbitrary: cur)
  case Nil
  then show ?case by simp
next
  case (Cons q data)
  then have "scan_ixpfx L vnet cur (q # data) = scan_ixpfx L vnet (Some q) data"
    by (simp add: scan_ixpfx_step_skip del: scan_ixpfx.simps)
  with Cons show ?case by (simp del: scan_ixpfx.simps)
qed

section \<open>Claims about the resolver\<close>

text \<open>
  C1. The claim: when the coarse-key query returns candidates none of which is
  a supernet of the address, the resolver returns not-found. The code does not:
  after the loop the variable \<^verbatim>\<open>ixpfx\<close> still holds the last candidate, so the
  test \<^verbatim>\<open>ixpfx==None\<close> succeeds only for an empty list. On the example of
  the specification (prefix \<^verbatim>\<open>198.51.100.0/24\<close>, address \<^verbatim>\<open>198.51.101.7\<close>)
  the only candidate does not contain the address, and the resolver hands it
  to \<^verbatim>\<open>getixp_by_ixpfx\<close> as if it were the match: whatever function that
  name is bound to receives the candidate, with \<^verbatim>\<open>one_ixp_by_ixpfx\<close> bound
  the exchange point of the candidate comes back, and the module as it stands
  raises \<^verbatim>\<open>NameError\<close>. In no case is the result not-found.
\<close>

theorem no_supernet_returns_last_candidate:
  "getixpfxlist_by_partial (directory_facade example_directory) ''198.51''
     = Some (ixpfx_rows example_directory)
   \<and> py_ip_network ''198.51.101.7/32'' = Inr (IPv4Network 3325256967 32)
   \<and> list_all (\<lambda>p. \<not> candidate_matches py_ipaddress (IPv4Network 3325256967 32) p)
        (ixpfx_rows example_directory)
   \<and> getixp_by_ipv4 py_ipaddress (directory_facade example_directory)
        (Some (one_ixp_by_ixpfx (directory_facade example_directory))) ''198.51.101.7''
     = Inr (Some example_ix)
   \<and> getixp_by_ip py_ipaddress (directory_facade example_directory)
        (Some (one_ixp_by_ixpfx (directory_facade example_directory))) ''198.51.101.7''
     = Inr (Some example_ix)
   \<and> (\<forall>g. getixp_by_ipv4 py_ipaddress (directory_facade example_directory) (Some g)
            ''198.51.101.7''
          = g \<lparr>ixpfx_id = 1, ixpfx_ixlan_id = 10, ixpfx_prefix = ''198.51.100.0/24''\<rparr>)
   \<and> getixp_by_ip py_ipaddress (as_shipped (directory_facade example_directory)) None
        ''198.51.101.7''
     = Inl NameError"
  by (simp add: resolver_defs parser_defs example_directory_def example_lans_def
        example_ix_def other_ix_def)

text \<open>
  C4. The claim: a candidate whose prefix-text does not parse as a network of
  the address's family is skipped, and never makes the call fail or becomes the
  match. The code passes over a candidate that does not parse at all, but if it
  is the last candidate and none before it matched, the variable \<^verbatim>\<open>ixpfx\<close>
  still holds it after the loop and its exchange point is returned (first
  part). A candidate that parses as a network of the other family reaches
  \<^verbatim>\<open>subnet_of\<close>, which raises \<^verbatim>\<open>TypeError\<close> outside the \<^verbatim>\<open>try\<close> (second part).
  The module as it stands, with \<^verbatim>\<open>getixp_by_ixpfx\<close> unbound, raises
  \<^verbatim>\<open>NameError\<close> in the first case, where the candidate is handed on, and the
  same \<^verbatim>\<open>TypeError\<close> in the second.
\<close>

theorem unparsable_candidate_returned:
  "py_ip_network ''198.51.100.0/33'' = Inl ValueError
   \<and> getixpfxlist_by_partial (directory_facade malformed_directory) ''198.51''
       = Some (ixpfx_rows malformed_directory)
   \<and> getixp_by_ip py_ipaddress (directory_facade malformed_directory)
        (Some (one_ixp_by_ixpfx (directory_facade malformed_directory))) ''198.51.100.7''
       = Inr (Some example_ix)
   \<and> py_ip_network ''1.0.0.0/8'' = Inr (IPv4Network 16777216 8)
   \<and> getixp_by_ip py_ipaddress (directory_facade mixed_directory)
        (Some (one_ixp_by_ixpfx (directory_facade mixed_directory))) ''1:0:0:0:0:0:0:5''
       = Inl TypeError
   \<and> (\<forall>g. getixp_by_ip py_ipaddress (directory_facade malformed_directory) (Some g)
            ''198.51.100.7''
          = g \<lparr>ixpfx_id = 1, ixpfx_ixlan_id = 10, ixpfx_prefix = ''198.51.100.0/33''\<rparr>)
   \<and> getixp_by_ip py_ipaddress (as_shipped (directory_facade malformed_directory)) None
        ''198.51.100.7''
       = Inl NameError
   \<and> getixp_by_ip py_ipaddress (as_shipped (directory_facade mixed_directory)) None
        ''1:0:0:0:0:0:0:5''
       = Inl TypeError"
  by (simp add: resolver_defs parser_defs malformed_directory_def mixed_directory_def
        example_lans_def example_ix_def other_ix_def v6partial_of_def hextet_def digit_char_def)

text \<open>
  C2. The claim: whenever the candidate list holds a supernet of the address,
  the resolver returns the exchange point of the first supernet in the order of
  the list. The code does so unless a candidate ahead of the first supernet
  parses as a network of the other family: \<^verbatim>\<open>subnet_of\<close> is called outside
  the \<^verbatim>\<open>try\<close> and raises \<^verbatim>\<open>TypeError\<close>. For the address \<^verbatim>\<open>1::5\<close> the coarse
  key is \<^verbatim>\<open>1\<close>; the starts-with query returns the IPv4 prefix \<^verbatim>\<open>1.0.0.0/8\<close>
  ahead of the supernet \<^verbatim>\<open>1::/64\<close>, and the call fails.
\<close>

theorem other_family_candidate_raises:
  "v6partial_key py_ipaddress ''1::5'' = Inr ''1''
   \<and> getixpfxlist_by_partial (directory_facade mixed_directory) ''1''
       = Some (ixpfx_rows mixed_directory)
   \<and> py_ip_network ''1::5/128'' = Inr (IPv6Network 5192296858534827628530496329220101 128)
   \<and> find (candidate_matches py_ipaddress (IPv6Network 5192296858534827628530496329220101 128))
        (ixpfx_rows mixed_directory)
       = Some \<lparr>ixpfx_id = 1, ixpfx_ixlan_id = 10, ixpfx_prefix = ''1::/64''\<rparr>
   \<and> one_ixp_by_ixpfx (directory_facade mixed_directory)
        \<lparr>ixpfx_id = 1, ixpfx_ixlan_id = 10, ixpfx_prefix = ''1::/64''\<rparr>
       = Inr (Some example_ix)
   \<and> getixp_by_ipv6 py_ipaddress (directory_facade mixed_directory)
        (Some (one_ixp_by_ixpfx (directory_facade mixed_directory))) ''1::5''
       = Inl TypeError
   \<and> getixp_by_ipv6 py_ipaddress (as_shipped (directory_facade mixed_directory)) None ''1::5''
       = Inl TypeError"
  by (simp add: resolver_defs parser_defs mixed_directory_def
        example_lans_def example_ix_def other_ix_def v6partial_of_def hextet_def digit_char_def)

text \<open>
  The first-match policy itself holds in both resolvers for every candidate
  list in which no candidate ahead of the first supernet of the address parses
  as a network of the other family: the first supernet in the order of the
  list is the one handed to \<^verbatim>\<open>getixp_by_ixpfx\<close>, whatever follows it, a more
  specific match included.
\<close>

theorem first_supernet_wins:
  assumes "find (candidate_matches L vnet) data = Some p"
    and "\<forall>q \<in> set (takeWhile (\<lambda>q. \<not> candidate_matches L vnet q) data).
           \<not> candidate_raises L vnet q"
  shows "(ip_network L (v4 @ ''/32'') = Inr vnet \<and> v4partial_of v4 = Inr key
            \<and> getixpfxlist_by_partial F key = Some data
          \<longrightarrow> getixp_by_ipv4 L F getixp_by_ixpfx v4
              = resolve_scanned getixp_by_ixpfx (Inr (Some p)))
       \<and> (ip_network L (v6 @ ''/128'') = Inr vnet \<and> v6partial_key L v6 = Inr key
            \<and> getixpfxlist_by_partial F key = Some data
          \<longrightarrow> getixp_by_ipv6 L F getixp_by_ixpfx v6
              = resolve_scanned getixp_by_ixpfx (Inr (Some p)))"
proof -
  have "scan_ixpfx L vnet None data = Inr (Some p)"
    using assms by (rule scan_ixpfx_first_match)
  then show ?thesis
    by (simp add: getixp_by_ipv4_def getixp_by_ipv6_def)
qed

theorem first_supernet_wins_witness:
  "find (candidate_matches py_ipaddress (IPv4Network 3325256711 32)) (ixpfx_rows overlap_directory)
     = Some \<lparr>ixpfx_id = 2, ixpfx_ixlan_id = 20, ixpfx_prefix = ''198.51.0.0/16''\<rparr>
   \<and> candidate_matches py_ipaddress (IPv4Network 3325256711 32)
        \<lparr>ixpfx_id = 1, ixpfx_ixlan_id = 10, ixpfx_prefix = ''198.51.100.0/24''\<rparr>
   \<and> getixp_by_ipv4 py_ipaddress (directory_facade overlap_directory)
        (Some (one_ixp_by_ixpfx (directory_facade overlap_directory))) ''198.51.100.7''
       = Inr (Some other_ix)"
proof -
  let ?vnet = "IPv4Network 3325256711 32"
  let ?wide = "\<lparr>ixpfx_id = 2, ixpfx_ixlan_id = 20, ixpfx_prefix = ''198.51.0.0/16''\<rparr>"
  let ?F = "directory_facade overlap_directory"
  have found: "find (candidate_matches py_ipaddress ?vnet) (ixpfx_rows overlap_directory) = Some ?wide"
    by (simp add: resolver_defs parser_defs overlap_directory_def)
  have ahead: "\<forall>q \<in> set (takeWhile (\<lambda>q. \<not> candidate_matches py_ipaddress ?vnet q)
                 (ixpfx_rows overlap_directory)). \<not> candidate_raises py_ipaddress ?vnet q"
    by (simp add: resolver_defs parser_defs overlap_directory_def)
  have net: "ip_network py_ipaddress (''198.51.100.7'' @ ''/32'') = Inr ?vnet"
    by (simp add: parser_defs)
  have key: "v4partial_of ''198.51.100.7'' = Inr ''198.51''"
    by (simp add: v4partial_of_def)
  have query: "getixpfxlist_by_partial ?F ''198.51'' = Some (ixpfx_rows overlap_directory)"
    by (simp add: directory_facade_def overlap_directory_def)
  have chain: "one_ixp_by_ixpfx ?F ?wide = Inr (Some other_ix)"
    by (simp add: one_ixp_by_ixpfx_def directory_facade_def overlap_directory_def
          example_lans_def example_ix_def other_ix_def)
  have narrow: "candidate_matches py_ipaddress ?vnet
        \<lparr>ixpfx_id = 1, ixpfx_ixlan_id = 10, ixpfx_prefix = ''198.51.100.0/24''\<rparr>"
    by (simp add: resolver_defs parser_defs)
  from first_supernet_wins [OF found ahead, of "''198.51.100.7''" "''198.51''" ?F
      "Some (one_ixp_by_ixpfx ?F)"] net key query
  have "getixp_by_ipv4 py_ipaddress ?F (Some (one_ixp_by_ixpfx ?F)) ''198.51.100.7''
        = resolve_scanned (Some (one_ixp_by_ixpfx ?F)) (Inr (Some ?wide))"
    by blast
  with found narrow chain show ?thesis by (simp add: resolve_scanned_def)
qed

text \<open>
  C9. The claim: once a matching prefix has been found, a chain that resolves
  to no exchange-lan record, or to no exchange-point record, gives not-found as
  an ordinary result and raises nothing. \<^verbatim>\<open>one_ixp_by_ixpfx\<close> tests both lists
  for emptiness to that end, but it reaches the queries under the names
  \<^verbatim>\<open>getixlan_by_id\<close> and \<^verbatim>\<open>getixp_by_id\<close>, which the module does not bind:
  in the module as it stands its first line raises \<^verbatim>\<open>NameError\<close> for every
  prefix and every directory, and the resolvers raise \<^verbatim>\<open>NameError\<close> at the
  call of the unbound \<^verbatim>\<open>getixp_by_ixpfx\<close> before that. Only with the names
  bound does the broken chain give \<^verbatim>\<open>None\<close>.
\<close>

theorem broken_chain_raises_name_error:
  "one_ixp_by_ixpfx (as_shipped F) ixpfx = Inl NameError
   \<and> resolve_scanned None (Inr (Some ixpfx)) = Inl NameError
   \<and> map_option (\<lambda>getixlan. getixlan 10) (getixlan_by_id (directory_facade no_lan_directory))
       = Some (Some [])
   \<and> one_ixp_by_ixpfx (directory_facade no_lan_directory)
        \<lparr>ixpfx_id = 1, ixpfx_ixlan_id = 10, ixpfx_prefix = ''198.51.100.0/24''\<rparr> = Inr None
   \<and> one_ixp_by_ixpfx (as_shipped (directory_facade no_lan_directory))
        \<lparr>ixpfx_id = 1, ixpfx_ixlan_id = 10, ixpfx_prefix = ''198.51.100.0/24''\<rparr>
       = Inl NameError
   \<and> getixp_by_ip py_ipaddress (as_shipped (directory_facade no_lan_directory)) None
        ''198.51.100.7''
       = Inl NameError
   \<and> getixp_by_ip py_ipaddress (as_shipped (directory_facade no_lan_directory))
        (Some (one_ixp_by_ixpfx (as_shipped (directory_facade no_lan_directory))))
        ''198.51.100.7''
       = Inl NameError
   \<and> getixp_by_ip py_ipaddress (as_shipped (directory_facade no_ix_directory))
        (Some (one_ixp_by_ixpfx (as_shipped (directory_facade no_ix_directory))))
        ''198.51.100.7''
       = Inl NameError"
  by (simp add: resolver_defs parser_defs no_lan_directory_def no_ix_directory_def
        example_lans_def example_ix_def other_ix_def)

text \<open>
  With the two names bound, \<^verbatim>\<open>one_ixp_by_ixpfx\<close> does what its two tests are
  there for: an empty list of exchange-lans, or an empty list of exchange
  points for the first lan, gives \<^verbatim>\<open>None\<close>.
\<close>

theorem broken_chain_not_found:
  assumes "getixlan_by_id F = Some getixlan"
    and "getixlan (ixpfx_ixlan_id p) = Some ixlans"
    and "ixlans = []
       \<or> (\<exists>getixp. getixp_by_id F = Some getixp \<and> getixp (ixlan_ix_id (hd ixlans)) = Some [])"
  shows "one_ixp_by_ixpfx F p = Inr None
       \<and> resolve_scanned (Some (one_ixp_by_ixpfx F)) (Inr (Some p)) = Inr None"
proof -
  have "one_ixp_by_ixpfx F p = Inr None"
  proof (cases ixlans)
    case Nil
    with assms(1,2) show ?thesis by (simp add: one_ixp_by_ixpfx_def)
  next
    case (Cons l ls)
    with assms(3) obtain getixp
      where "getixp_by_id F = Some getixp" "getixp (ixlan_ix_id l) = Some []"
      by auto
    with Cons assms(1,2) show ?thesis by (simp add: one_ixp_by_ixpfx_def)
  qed
  then show ?thesis by (simp add: resolve_scanned_def)
qed

theorem broken_chain_not_found_witness:
  "one_ixp_by_ixpfx (directory_facade no_lan_directory)
        \<lparr>ixpfx_id = 1, ixpfx_ixlan_id = 10, ixpfx_prefix = ''198.51.100.0/24''\<rparr> = Inr None
   \<and> one_ixp_by_ixpfx (directory_facade no_ix_directory)
        \<lparr>ixpfx_id = 1, ixpfx_ixlan_id = 10, ixpfx_prefix = ''198.51.100.0/24''\<rparr> = Inr None
   \<and> getixp_by_ip py_ipaddress (directory_facade no_ix_directory)
        (Some (one_ixp_by_ixpfx (directory_facade no_ix_directory))) ''198.51.100.7'' = Inr None"
proof -
  let ?p = "\<lparr>ixpfx_id = 1, ixpfx_ixlan_id = 10, ixpfx_prefix = ''198.51.100.0/24''\<rparr>"
  let ?lans = "\<lambda>d i. Some (filter (\<lambda>r. ixlan_id r = i) (ixlan_rows d))"
  let ?ixs = "\<lambda>d i. Some (filter (\<lambda>r. ix_id r = i) (ix_rows d))"
  have a1: "getixlan_by_id (directory_facade no_lan_directory) = Some (?lans no_lan_directory)"
    by (simp add: directory_facade_def)
  have a2: "?lans no_lan_directory (ixpfx_ixlan_id ?p) = Some []"
    by (simp add: no_lan_directory_def)
  have b1: "getixlan_by_id (directory_facade no_ix_directory) = Some (?lans no_ix_directory)"
    by (simp add: directory_facade_def)
  have b2: "?lans no_ix_directory (ixpfx_ixlan_id ?p) = Some [\<lparr>ixlan_id = 10, ixlan_ix_id = 7\<rparr>]"
    by (simp add: no_ix_directory_def example_lans_def)
  have b3: "[\<lparr>ixlan_id = 10, ixlan_ix_id = 7\<rparr>] = []
       \<or> (\<exists>getixp. getixp_by_id (directory_facade no_ix_directory) = Some getixp
            \<and> getixp (ixlan_ix_id (hd [\<lparr>ixlan_id = 10, ixlan_ix_id = 7\<rparr>])) = Some [])"
    by (simp add: directory_facade_def no_ix_directory_def other_ix_def)
  have r: "getixp_by_ip py_ipaddress (directory_facade no_ix_directory)
        (Some (one_ixp_by_ixpfx (directory_facade no_ix_directory))) ''198.51.100.7'' = Inr None"
    by (simp add: resolver_defs parser_defs no_ix_directory_def example_lans_def other_ix_def)
  have "one_ixp_by_ixpfx (directory_facade no_lan_directory) ?p = Inr None"
    using broken_chain_not_found [OF a1 a2] by simp
  moreover have "one_ixp_by_ixpfx (directory_facade no_ix_directory) ?p = Inr None"
    using broken_chain_not_found [OF b1 b2 b3] by simp
  ultimately show ?thesis using r by simp
qed

text \<open>
  C3. The claim: an address contained in exactly one prefix of the directory
  resolves, through \<^verbatim>\<open>getixp_by_ip\<close>, to the exchange point reached from that
  prefix. The module as it stands never returns an exchange point: when the
  loop has found the prefix, \<^verbatim>\<open>return getixp_by_ixpfx(ixpfx)\<close> calls a name
  that is not bound and raises \<^verbatim>\<open>NameError\<close>, and with that name bound to
  \<^verbatim>\<open>one_ixp_by_ixpfx\<close> the unbound \<^verbatim>\<open>getixlan_by_id\<close> raises it. This is the
  example of the specification, \<^verbatim>\<open>198.51.100.7\<close> in \<^verbatim>\<open>198.51.100.0/24\<close>; only
  with all three names bound does the exchange point come back. A second
  defect remains even then: the normalizer turns the empty group of \<^verbatim>\<open>::\<close>
  into \<^verbatim>\<open>0\<close>, so the address \<^verbatim>\<open>2001:de8:6::714:1\<close> of the library's own
  comment, which lies in the only prefix \<^verbatim>\<open>2001:de8:6::/64\<close>, reaches the
  parser as \<^verbatim>\<open>2001:de8:6:0:714:1\<close> and is refused with \<^verbatim>\<open>ValueError\<close>, while
  \<^verbatim>\<open>getixp_by_ipv6\<close> on the same text finds the exchange point.
\<close>

theorem unique_prefix_not_resolved:
  "ixpfx_rows example_directory
     = [\<lparr>ixpfx_id = 1, ixpfx_ixlan_id = 10, ixpfx_prefix = ''198.51.100.0/24''\<rparr>]
   \<and> py_ip_network ''198.51.100.7/32'' = Inr (IPv4Network 3325256711 32)
   \<and> candidate_matches py_ipaddress (IPv4Network 3325256711 32)
        \<lparr>ixpfx_id = 1, ixpfx_ixlan_id = 10, ixpfx_prefix = ''198.51.100.0/24''\<rparr>
   \<and> getixp_by_ip py_ipaddress (as_shipped (directory_facade example_directory)) None
        ''198.51.100.7''
       = Inl NameError
   \<and> getixp_by_ip py_ipaddress (as_shipped (directory_facade example_directory))
        (Some (one_ixp_by_ixpfx (as_shipped (directory_facade example_directory))))
        ''198.51.100.7''
       = Inl NameError
   \<and> getixp_by_ip py_ipaddress (directory_facade example_directory)
        (Some (one_ixp_by_ixpfx (directory_facade example_directory))) ''198.51.100.7''
       = Inr (Some example_ix)
   \<and> ixpfx_rows v6_directory
       = [\<lparr>ixpfx_id = 1, ixpfx_ixlan_id = 10, ixpfx_prefix = ''2001:de8:6::/64''\<rparr>]
   \<and> py_ip_network ''2001:de8:6::714:1/128''
       = Inr (IPv6Network 42540770214241647096509877216930430977 128)
   \<and> candidate_matches py_ipaddress (IPv6Network 42540770214241647096509877216930430977 128)
        \<lparr>ixpfx_id = 1, ixpfx_ixlan_id = 10, ixpfx_prefix = ''2001:de8:6::/64''\<rparr>
   \<and> unexplode_ip ''2001:de8:6::714:1'' = ''2001:de8:6:0:714:1''
   \<and> py_ip_address ''2001:de8:6:0:714:1'' = Inl ValueError
   \<and> getixp_by_ip py_ipaddress (directory_facade v6_directory)
        (Some (one_ixp_by_ixpfx (directory_facade v6_directory))) ''2001:de8:6::714:1''
       = Inl ValueError
   \<and> getixp_by_ipv6 py_ipaddress (directory_facade v6_directory)
        (Some (one_ixp_by_ixpfx (directory_facade v6_directory))) ''2001:de8:6::714:1''
       = Inr (Some example_ix)"
  by (simp add: resolver_defs parser_defs example_directory_def v6_directory_def
        example_lans_def example_ix_def other_ix_def v6partial_of_def hextet_def digit_char_def)

text \<open>
  Apart from these defects the resolver has a limit that is intended: it only
  looks at prefixes whose text starts with the coarse key of the address. The
  directory below holds one valid prefix, \<^verbatim>\<open>198.0.0.0/8\<close>, which contains
  \<^verbatim>\<open>198.51.100.7\<close> and leads to an exchange point; its text does not start
  with \<^verbatim>\<open>198.51\<close>, the query returns nothing, and the result is not-found
  whether the names are bound or not.
\<close>

theorem unique_prefix_counterexample:
  "ixpfx_rows wide_directory = [\<lparr>ixpfx_id = 1, ixpfx_ixlan_id = 10, ixpfx_prefix = ''198.0.0.0/8''\<rparr>]
   \<and> py_ip_network ''198.51.100.7/32'' = Inr (IPv4Network 3325256711 32)
   \<and> candidate_matches py_ipaddress (IPv4Network 3325256711 32)
        \<lparr>ixpfx_id = 1, ixpfx_ixlan_id = 10, ixpfx_prefix = ''198.0.0.0/8''\<rparr>
   \<and> one_ixp_by_ixpfx (directory_facade wide_directory)
        \<lparr>ixpfx_id = 1, ixpfx_ixlan_id = 10, ixpfx_prefix = ''198.0.0.0/8''\<rparr>
       = Inr (Some example_ix)
   \<and> getixp_by_ip py_ipaddress (directory_facade wide_directory)
        (Some (one_ixp_by_ixpfx (directory_facade wide_directory))) ''198.51.100.7''
       = Inr None
   \<and> getixp_by_ip py_ipaddress (as_shipped (directory_facade wide_directory)) None
        ''198.51.100.7''
       = Inr None"
  by (simp add: resolver_defs parser_defs wide_directory_def
        example_lans_def example_ix_def other_ix_def)

lemma find_unique:
  assumes "p \<in> set xs" "P p" "\<forall>q \<in> set xs. P q \<longrightarrow> q = p"
  shows "find P xs = Some p"
  using assms
proof (induction xs)
  case Nil
  then show ?case by simp
next
  case (Cons a xs)
  show ?case
  proof (cases "P a")
    case True
    with Cons.prems(3) have "a = p" by simp
    with True show ?thesis by simp
  next
    case False
    with Cons.prems(1,2) have "p \<in> set xs" by auto
    moreover have "\<forall>q \<in> set xs. P q \<longrightarrow> q = p" using Cons.prems(3) by simp
    ultimately have "find P xs = Some p" using Cons.prems(2) Cons.IH by blast
    with False show ?thesis by simp
  qed
qed

text \<open>
  With the three names bound the resolver does reach the exchange point of the
  unique containing prefix, provided the normalized text is accepted by the
  parser, the text of the prefix starts with the coarse key of the address, and
  no prefix with such a text parses as a network of the other family: the
  result is the first exchange point whose identifier is the \<^verbatim>\<open>ix_id\<close> of the
  first exchange-lan whose identifier is the \<^verbatim>\<open>ixlan_id\<close> of the prefix.
\<close>

theorem resolve_unique_containing_prefix:
  assumes addr: "ip_address L (unexplode_ip raw) = Inr addr"
    and fam: "(address_version addr = 4
                \<and> ip_network L (unexplode_ip raw @ ''/32'') = Inr vnet
                \<and> v4partial_of (unexplode_ip raw) = Inr key)
            \<or> (address_version addr = 6
                \<and> ip_network L (unexplode_ip raw @ ''/128'') = Inr vnet
                \<and> v6partial_key L (unexplode_ip raw) = Inr key)"
    and p: "p \<in> set (ixpfx_rows d)" "candidate_matches L vnet p" "prefix key (ixpfx_prefix p)"
    and uniq: "\<forall>q \<in> set (ixpfx_rows d). candidate_matches L vnet q \<longrightarrow> q = p"
    and same_family: "\<forall>q \<in> set (ixpfx_rows d).
                        prefix key (ixpfx_prefix q) \<longrightarrow> \<not> candidate_raises L vnet q"
    and lan: "filter (\<lambda>r. ixlan_id r = ixpfx_ixlan_id p) (ixlan_rows d) = l # ls"
    and ix: "filter (\<lambda>r. ix_id r = ixlan_ix_id l) (ix_rows d) = x # xs"
  shows "getixp_by_ip L (directory_facade d) (Some (one_ixp_by_ixpfx (directory_facade d))) raw
         = Inr (Some x)"
proof -
  let ?F = "directory_facade d"
  let ?data = "filter (\<lambda>r. prefix key (ixpfx_prefix r)) (ixpfx_rows d)"
  have query: "getixpfxlist_by_partial ?F key = Some ?data"
    by (simp add: directory_facade_def)
  have m: "p \<in> set ?data" using p by simp
  have u: "\<forall>q \<in> set ?data. candidate_matches L vnet q \<longrightarrow> q = p"
    using uniq by simp
  have f: "find (candidate_matches L vnet) ?data = Some p"
    using m p(2) u by (rule find_unique)
  have "\<forall>q \<in> set (takeWhile (\<lambda>q. \<not> candidate_matches L vnet q) ?data).
          \<not> candidate_raises L vnet q"
  proof
    fix q assume "q \<in> set (takeWhile (\<lambda>q. \<not> candidate_matches L vnet q) ?data)"
    then have "q \<in> set ?data" by (rule set_takeWhileD [THEN conjunct1])
    then show "\<not> candidate_raises L vnet q" using same_family by simp
  qed
  with f have scan: "scan_ixpfx L vnet None ?data = Inr (Some p)"
    by (rule scan_ixpfx_first_match)
  have chain: "one_ixp_by_ixpfx ?F p = Inr (Some x)"
    unfolding one_ixp_by_ixpfx_def directory_facade_def using lan ix by simp
  from fam show ?thesis
  proof
    assume "address_version addr = 4
            \<and> ip_network L (unexplode_ip raw @ ''/32'') = Inr vnet
            \<and> v4partial_of (unexplode_ip raw) = Inr key"
    then show ?thesis
      by (simp add: getixp_by_ip_def getixp_by_ipv4_def resolve_scanned_def
            addr query scan chain)
  next
    assume "address_version addr = 6
            \<and> ip_network L (unexplode_ip raw @ ''/128'') = Inr vnet
            \<and> v6partial_key L (unexplode_ip raw) = Inr key"
    then show ?thesis
      by (simp add: getixp_by_ip_def getixp_by_ipv6_def resolve_scanned_def
            addr query scan chain)
  qed
qed

theorem resolve_unique_containing_prefix_witness:
  "unexplode_ip ''198.051.100.007'' = ''198.51.100.7''
   \<and> ip_address py_ipaddress ''198.51.100.7'' = Inr (IPv4Address 3325256711)
   \<and> candidate_matches py_ipaddress (IPv4Network 3325256711 32)
        \<lparr>ixpfx_id = 1, ixpfx_ixlan_id = 10, ixpfx_prefix = ''198.51.100.0/24''\<rparr>
   \<and> getixp_by_ip py_ipaddress (directory_facade example_directory)
        (Some (one_ixp_by_ixpfx (directory_facade example_directory))) ''198.051.100.007''
       = Inr (Some example_ix)"
proof -
  let ?raw = "''198.051.100.007''"
  let ?vnet = "IPv4Network 3325256711 32"
  let ?p = "\<lparr>ixpfx_id = 1, ixpfx_ixlan_id = 10, ixpfx_prefix = ''198.51.100.0/24''\<rparr>"
  have norm: "unexplode_ip ?raw = ''198.51.100.7''"
    by (simp add: unexplode_ip_def unexplode_part_def re_sub_leading_zeros_def)
  have addr: "ip_address py_ipaddress (unexplode_ip ?raw) = Inr (IPv4Address 3325256711)"
    by (simp add: norm parser_defs)
  have fam: "(address_version (IPv4Address 3325256711) = 4
                \<and> ip_network py_ipaddress (unexplode_ip ?raw @ ''/32'') = Inr ?vnet
                \<and> v4partial_of (unexplode_ip ?raw) = Inr ''198.51'')
            \<or> (address_version (IPv4Address 3325256711) = 6
                \<and> ip_network py_ipaddress (unexplode_ip ?raw @ ''/128'') = Inr ?vnet
                \<and> v6partial_key py_ipaddress (unexplode_ip ?raw) = Inr ''198.51'')"
    by (simp add: norm parser_defs v4partial_of_def)
  have member: "?p \<in> set (ixpfx_rows example_directory)"
    by (simp add: example_directory_def)
  have matches: "candidate_matches py_ipaddress ?vnet ?p"
    by (simp add: resolver_defs parser_defs)
  have starts: "prefix ''198.51'' (ixpfx_prefix ?p)"
    by simp
  have uniq: "\<forall>q \<in> set (ixpfx_rows example_directory).
                candidate_matches py_ipaddress ?vnet q \<longrightarrow> q = ?p"
    by (simp add: example_directory_def)
  have same_family: "\<forall>q \<in> set (ixpfx_rows example_directory).
        prefix ''198.51'' (ixpfx_prefix q) \<longrightarrow> \<not> candidate_raises py_ipaddress ?vnet q"
    by (simp add: example_directory_def resolver_defs parser_defs)
  have lan: "filter (\<lambda>r. ixlan_id r = ixpfx_ixlan_id ?p) (ixlan_rows example_directory)
             = \<lparr>ixlan_id = 10, ixlan_ix_id = 7\<rparr> # []"
    by (simp add: example_directory_def example_lans_def)
  have ix: "filter (\<lambda>r. ix_id r = ixlan_ix_id \<lparr>ixlan_id = 10, ixlan_ix_id = 7\<rparr>)
              (ix_rows example_directory) = example_ix # []"
    by (simp add: example_directory_def example_ix_def other_ix_def)
  have "getixp_by_ip py_ipaddress (directory_facade example_directory)
          (Some (one_ixp_by_ixpfx (directory_facade example_directory))) ?raw
        = Inr (Some example_ix)"
    by (rule resolve_unique_containing_prefix
          [OF addr fam member matches starts uniq same_family lan ix])
  with norm addr matches show ?thesis by simp
qed

section \<open>Claims about the normalizer and the coarse key\<close>

lemma unexplode_part_eq_strip: "unexplode_part = strip_leading_zeros"
  by (rule ext) (simp add: unexplode_part_def strip_leading_zeros_def re_sub_leading_zeros_def Let_def)

lemma unexplode_loop_dyn_strings:
  "unexplode_loop_dyn results (map PyStr xs)
   = Inr (results @ map (\<lambda>x. PyStr (unexplode_part x)) xs)"
  by (induction xs arbitrary: results) (simp_all add: unexplode_part_def Let_def)

lemma join_items_strings: "join_items (map PyStr ws) = Inr ws"
  by (induction ws) simp_all

lemma unexplode_join_dyn_strings:
  "unexplode_join_dyn joinchar (PyList (map PyStr xs))
   = Inr (PyStr (py_join joinchar (map unexplode_part xs)))"
proof -
  have "join_items (map (\<lambda>x. PyStr (unexplode_part x)) xs) = Inr (map unexplode_part xs)"
    using join_items_strings [of "map unexplode_part xs"] by (simp add: comp_def)
  then show ?thesis
    by (simp add: unexplode_join_dyn_def unexplode_loop_dyn_strings join_method_def)
qed

lemma unexplode_ip_dyn_string: "unexplode_ip_dyn (PyStr s) = Inr (PyStr (unexplode_ip s))"
  by (simp add: unexplode_ip_dyn_def unexplode_ip_def unexplode_join_dyn_strings
        unexplode_loop_map Let_def)

lemma py_join_concat: "py_join sep (w # ws) = w @ concat (map (\<lambda>v. sep @ v) ws)"
  by (induction ws arbitrary: w) simp_all

lemma count_list_concat:
  "count_list (concat xs) c = sum_list (map (\<lambda>w. count_list w c) xs)"
  by (induction xs) simp_all

lemma unexplode_ip_four_dots:
  assumes "CHR ''.'' \<notin> set a \<union> set b \<union> set c \<union> set d"
  shows "unexplode_ip (a @ ''.'' @ b @ ''.'' @ c @ ''.'' @ d)
         = strip_leading_zeros a @ ''.'' @ strip_leading_zeros b @ ''.''
           @ strip_leading_zeros c @ ''.'' @ strip_leading_zeros d"
proof -
  have "py_split CHR ''.'' (a @ ''.'' @ b @ ''.'' @ c @ ''.'' @ d) = [a, b, c, d]"
    using assms by (simp add: py_split_append_sep py_split_no_occurrence)
  then show ?thesis
    by (simp add: unexplode_ip_def unexplode_loop_map unexplode_part_eq_strip)
qed

lemma unexplode_ip_colon_case:
  assumes "length (py_split CHR ''.'' x) \<noteq> 4" "1 < length (py_split CHR '':'' x)"
  shows "unexplode_ip x = py_join '':'' (map unexplode_part (py_split CHR '':'' x))"
  using assms by (simp add: unexplode_ip_def unexplode_loop_map Let_def)

lemma unexplode_ip_colons:
  assumes "ws \<noteq> []" "\<forall>v \<in> set (w # ws). CHR '':'' \<notin> set v"
    and "count_list (concat (w # ws)) CHR ''.'' \<noteq> 3"
  shows "unexplode_ip (w @ concat (map (\<lambda>v. '':'' @ v) ws))
         = strip_leading_zeros w @ concat (map (\<lambda>v. '':'' @ strip_leading_zeros v) ws)"
proof -
  let ?s = "w @ concat (map (\<lambda>v. '':'' @ v) ws)"
  have s: "?s = py_join '':'' (w # ws)" by (simp add: py_join_concat)
  have colons: "py_split CHR '':'' ?s = w # ws"
    unfolding s using assms(2) py_split_join [of "w # ws" "CHR '':''"] by simp
  have "count_list ?s CHR ''.'' = sum_list (map (\<lambda>v. count_list v CHR ''.'') (w # ws))"
    unfolding s by (rule count_list_py_join) simp
  also have "\<dots> = count_list (concat (w # ws)) CHR ''.''"
    by (simp only: count_list_concat)
  finally have "length (py_split CHR ''.'' ?s) \<noteq> 4"
    using assms(3) by (simp add: length_py_split)
  moreover have "1 < length (py_split CHR '':'' ?s)"
    using assms(1) colons by (cases ws) simp_all
  ultimately have "unexplode_ip ?s = py_join '':'' (map unexplode_part (py_split CHR '':'' ?s))"
    by (rule unexplode_ip_colon_case)
  also have "\<dots> = py_join '':'' (map unexplode_part (w # ws))"
    by (simp only: colons)
  also have "\<dots> = strip_leading_zeros w @ concat (map (\<lambda>v. '':'' @ strip_leading_zeros v) ws)"
    by (simp add: py_join_concat unexplode_part_eq_strip comp_def)
  finally show ?thesis .
qed

lemma unexplode_ip_other:
  assumes "CHR '':'' \<notin> set s" "count_list s CHR ''.'' \<noteq> 3"
  shows "unexplode_ip s = s"
proof -
  have "length (py_split CHR ''.'' s) \<noteq> 4"
    using assms(2) by (simp add: length_py_split)
  moreover have "py_split CHR '':'' s = [s]"
    using assms(1) by (rule py_split_no_occurrence)
  ultimately show ?thesis by (simp add: unexplode_ip_def)
qed

text \<open>
  C10. \<^verbatim>\<open>unexplode_ip\<close> is total over arbitrary strings: on every string each
  operation of its body meets a value of the type it wants, so the call
  returns a string and raises nothing, and the string returned is the one the
  claim describes. Four dot-separated components are each stripped of leading
  zeros and rejoined with dots; otherwise two or more colon-separated
  components are stripped and rejoined with colons; any other string comes back
  unchanged. The three cases cover every string: it has three dots, or else at
  least one colon, or else neither.
\<close>

theorem unexplode_ip_never_raises:
  "unexplode_ip_dyn (PyStr s) = Inr (PyStr (unexplode_ip s))
   \<and> (CHR ''.'' \<notin> set a \<union> set b \<union> set c \<union> set d \<longrightarrow>
        unexplode_ip (a @ ''.'' @ b @ ''.'' @ c @ ''.'' @ d)
        = strip_leading_zeros a @ ''.'' @ strip_leading_zeros b @ ''.''
          @ strip_leading_zeros c @ ''.'' @ strip_leading_zeros d)
   \<and> (ws \<noteq> [] \<and> (\<forall>v \<in> set (w # ws). CHR '':'' \<notin> set v)
        \<and> count_list (concat (w # ws)) CHR ''.'' \<noteq> 3 \<longrightarrow>
        unexplode_ip (w @ concat (map (\<lambda>v. '':'' @ v) ws))
        = strip_leading_zeros w @ concat (map (\<lambda>v. '':'' @ strip_leading_zeros v) ws))
   \<and> (CHR '':'' \<notin> set t \<and> count_list t CHR ''.'' \<noteq> 3 \<longrightarrow> unexplode_ip t = t)"
  using unexplode_ip_dyn_string [of s] unexplode_ip_four_dots [of a b c d]
    unexplode_ip_colons [of ws w] unexplode_ip_other [of t]
  by blast

theorem unexplode_ip_never_raises_witness:
  "unexplode_ip_dyn (PyStr ''010.001.002.003'') = Inr (PyStr ''10.1.2.3'')
   \<and> unexplode_ip_dyn (PyStr ''2001:0de8:0006:0000:0000:0000:0714:0001'')
       = Inr (PyStr ''2001:de8:6:0:0:0:714:1'')
   \<and> unexplode_ip_dyn (PyStr ''not an address'') = Inr (PyStr ''not an address'')
   \<and> unexplode_ip_dyn (PyStr '''') = Inr (PyStr '''')
   \<and> unexplode_ip_dyn PyNone = Inl AttributeError
   \<and> unexplode_ip_dyn (PyInt 7) = Inl AttributeError"
proof -
  note t1 = unexplode_ip_never_raises
    [of "''010.001.002.003''" "''010''" "''001''" "''002''" "''003''" "[]" "[]" "[]"]
  note t2 = unexplode_ip_never_raises
    [of "''2001:0de8:0006:0000:0000:0000:0714:0001''" "[]" "[]" "[]" "[]"
        "[''0de8'', ''0006'', ''0000'', ''0000'', ''0000'', ''0714'', ''0001'']" "''2001''" "[]"]
  note t3 = unexplode_ip_never_raises
    [of "''not an address''" "[]" "[]" "[]" "[]" "[]" "[]" "''not an address''"]
  note t4 = unexplode_ip_never_raises [of "''''" "[]" "[]" "[]" "[]" "[]" "[]" "''''"]
  have r1: "unexplode_ip ''010.001.002.003'' = ''10.1.2.3''"
    using t1 by (simp add: strip_leading_zeros_def)
  have r2: "unexplode_ip ''2001:0de8:0006:0000:0000:0000:0714:0001'' = ''2001:de8:6:0:0:0:714:1''"
    using t2 by (simp add: strip_leading_zeros_def)
  have r3: "unexplode_ip ''not an address'' = ''not an address''"
    using t3 by simp
  have r4: "unexplode_ip '''' = ''''"
    using t4 by simp
  have e1: "unexplode_ip_dyn PyNone = Inl AttributeError"
    by (simp add: unexplode_ip_dyn_def)
  have e2: "unexplode_ip_dyn (PyInt 7) = Inl AttributeError"
    by (simp add: unexplode_ip_dyn_def)
  from t1 t2 t3 t4 show ?thesis
    by (simp only: r1 r2 r3 r4 e1 e2 simp_thms)
qed

lemma v6partial_loop_False:
  "v6partial_loop resultarr False parts = rev (map strip_leading_zeros parts) @ resultarr"
  by (induction parts arbitrary: resultarr)
     (simp_all add: strip_leading_zeros_def re_sub_leading_zeros_def Let_def)

lemma v6partial_loop_True:
  "v6partial_loop resultarr True parts
   = v6partial_loop resultarr False (dropWhile (\<lambda>g. g = ''0000'') parts)"
proof (induction parts)
  case Nil
  then show ?case by simp
next
  case (Cons part parts)
  show ?case
  proof (cases "part = ''0000''")
    case True
    with Cons show ?thesis by simp
  next
    case False
    then show ?thesis by (simp add: Let_def)
  qed
qed

text \<open>
  C7. The IPv6 coarse key computed by \<^verbatim>\<open>getixp_by_ipv6\<close> is the one the
  specification describes, for every expanded form; the six-group form
  \<^verbatim>\<open>2001:0de8:0006:0000:0000:0000\<close> gives \<^verbatim>\<open>2001:de8:6\<close>, and so does the
  address \<^verbatim>\<open>2001:de8:6::714:1\<close> of the library's comment through its expanded
  form.
\<close>

theorem v6partial_is_coarse_key:
  "v6partial_of v6full = coarse_key_v6_spec v6full
   \<and> v6partial_of ''2001:0de8:0006:0000:0000:0000'' = ''2001:de8:6''
   \<and> exploded (IPv6Address 42540770214241647096509877216930430977)
       = ''2001:0de8:0006:0000:0000:0000:0714:0001''
   \<and> v6partial_of (exploded (IPv6Address 42540770214241647096509877216930430977))
       = ''2001:de8:6''"
proof -
  let ?kept = "take 6 (py_split CHR '':'' v6full)"
  let ?arr = "v6partial_loop [] True (rev ?kept)"
  have arr: "?arr = map strip_leading_zeros (rev (dropWhile (\<lambda>g. g = ''0000'') (rev ?kept)))"
    by (simp add: v6partial_loop_True v6partial_loop_False rev_map)
  have "length (dropWhile (\<lambda>g. g = ''0000'') (rev ?kept)) \<le> length (rev ?kept)"
    by (rule length_dropWhile_le)
  then have "length ?arr \<le> 6"
    by (simp add: arr)
  then have "take 6 ?arr = ?arr" by simp
  then have general: "v6partial_of v6full = coarse_key_v6_spec v6full"
    by (simp add: v6partial_of_def coarse_key_v6_spec_def Let_def arr)
  have six: "v6partial_of ''2001:0de8:0006:0000:0000:0000'' = ''2001:de8:6''"
    by (simp add: v6partial_of_def re_sub_leading_zeros_def)
  have full: "exploded (IPv6Address 42540770214241647096509877216930430977)
       = ''2001:0de8:0006:0000:0000:0000:0714:0001''"
    by (simp add: hextet_def digit_char_def)
  have "v6partial_of ''2001:0de8:0006:0000:0000:0000:0714:0001'' = ''2001:de8:6''"
    by (simp add: v6partial_of_def re_sub_leading_zeros_def)
  with general six full show ?thesis by simp
qed

lemma zero_padded_unexplode_part:
  assumes "zero_padded a b"
  shows "unexplode_part b = unexplode_part a"
proof -
  let ?k = "length b - length a"
  have "drop ?k b = a" using assms by (simp add: zero_padded_def)
  then have b: "b = take ?k b @ a" by (metis append_take_drop_id)
  have "\<forall>c \<in> set (take ?k b). c = CHR ''0''"
    using assms by (simp add: zero_padded_def list_all_iff)
  then have "dropWhile (\<lambda>c. c = CHR ''0'') (take ?k b @ a) = dropWhile (\<lambda>c. c = CHR ''0'') a"
    by (simp add: dropWhile_append2)
  with b have "dropWhile (\<lambda>c. c = CHR ''0'') b = dropWhile (\<lambda>c. c = CHR ''0'') a"
    by simp
  then show ?thesis by (simp add: unexplode_part_def re_sub_leading_zeros_def)
qed

lemma zero_padded_count:
  assumes "zero_padded a b" "c \<noteq> CHR ''0''"
  shows "count_list b c = count_list a c"
proof -
  let ?k = "length b - length a"
  have "drop ?k b = a" using assms by (simp add: zero_padded_def)
  then have b: "b = take ?k b @ a" by (metis append_take_drop_id)
  have "c \<notin> set (take ?k b)"
    using assms by (auto simp: zero_padded_def list_all_iff)
  then have "count_list (take ?k b) c = 0" by simp
  then have "count_list (take ?k b @ a) c = count_list a c" by simp
  with b show ?thesis by simp
qed

lemma zero_padded_parts:
  "list_all2 zero_padded xs ys \<Longrightarrow> map unexplode_part ys = map unexplode_part xs"
  by (induction rule: list_all2_induct) (simp_all add: zero_padded_unexplode_part)

lemma zero_padded_parts_count:
  "list_all2 zero_padded xs ys \<Longrightarrow> c \<noteq> CHR ''0'' \<Longrightarrow>
   sum_list (map (\<lambda>w. count_list w c) ys) = sum_list (map (\<lambda>w. count_list w c) xs)"
  by (induction rule: list_all2_induct) (simp_all add: zero_padded_count)

lemma count_list_as_parts:
  "c \<noteq> d \<Longrightarrow> count_list s c = sum_list (map (\<lambda>w. count_list w c) (py_split d s))"
  using count_list_py_join [of c "[d]" "py_split d s"] by (simp add: py_join_split)

text \<open>
  C8. The claim as stated fails for the IPv4 key: \<^verbatim>\<open>getixp_by_ipv4\<close> takes the
  first two components of the text as they are, so the zero-padded variant
  \<^verbatim>\<open>001.002.3.4\<close> of \<^verbatim>\<open>1.2.3.4\<close> has the key \<^verbatim>\<open>001.002\<close>, not \<^verbatim>\<open>1.2\<close> (and
  with a library that refuses leading zeros the call raises before any key is
  computed).
\<close>

theorem coarse_key_counterexample:
  "zero_padded_variant CHR ''.'' ''1.2.3.4'' ''001.002.3.4''
   \<and> v4partial_of ''1.2.3.4'' = Inr ''1.2''
   \<and> v4partial_of ''001.002.3.4'' = Inr ''001.002''
   \<and> getixp_by_ipv4 py_ipaddress (directory_facade example_directory)
        (Some (one_ixp_by_ixpfx (directory_facade example_directory))) ''001.002.3.4''
       = Inl ValueError"
  by (simp add: zero_padded_variant_def zero_padded_def v4partial_of_def getixp_by_ipv4_def
        parser_defs)

text \<open>
  C8, amended. The coarse key computed after normalization, which is how
  \<^verbatim>\<open>getixp_by_ip\<close> computes it, is the same for an address text and every
  zero-padded variant of it: the normalizer maps both to the same text, hence
  the IPv4 first-two-components key, the IPv6 six-group key and the whole
  resolution coincide. The IPv6 key of \<^verbatim>\<open>getixp_by_ipv6\<close> is moreover the
  same for any two texts that the library parses to the same address.
\<close>

theorem coarse_key_after_normalizing:
  assumes "zero_padded_variant sep x y"
    and "(sep = CHR ''.'' \<and> length (py_split CHR ''.'' x) = 4)
       \<or> (sep = CHR '':'' \<and> length (py_split CHR ''.'' x) \<noteq> 4
           \<and> 1 < length (py_split CHR '':'' x))"
  shows "unexplode_ip y = unexplode_ip x
       \<and> v4partial_of (unexplode_ip y) = v4partial_of (unexplode_ip x)
       \<and> v6partial_key L (unexplode_ip y) = v6partial_key L (unexplode_ip x)
       \<and> getixp_by_ip L F getixp_by_ixpfx y = getixp_by_ip L F getixp_by_ixpfx x
       \<and> (ip_address L v = ip_address L w \<longrightarrow> v6partial_key L v = v6partial_key L w)"
proof -
  have parts: "list_all2 zero_padded (py_split sep x) (py_split sep y)"
    using assms(1) by (simp add: zero_padded_variant_def)
  then have len: "length (py_split sep y) = length (py_split sep x)"
    by (simp add: list_all2_lengthD)
  have same: "map unexplode_part (py_split sep y) = map unexplode_part (py_split sep x)"
    using parts by (rule zero_padded_parts)
  have "unexplode_ip y = unexplode_ip x"
    using assms(2)
  proof
    assume "sep = CHR ''.'' \<and> length (py_split CHR ''.'' x) = 4"
    with len same show ?thesis
      by (simp add: unexplode_ip_def unexplode_loop_map)
  next
    assume colon: "sep = CHR '':'' \<and> length (py_split CHR ''.'' x) \<noteq> 4
                   \<and> 1 < length (py_split CHR '':'' x)"
    have "count_list y CHR ''.'' = count_list x CHR ''.''"
      using colon parts
        count_list_as_parts [of "CHR ''.''" "CHR '':''" x]
        count_list_as_parts [of "CHR ''.''" "CHR '':''" y]
        zero_padded_parts_count [of "py_split CHR '':'' x" "py_split CHR '':'' y" "CHR ''.''"]
      by simp
    then have "length (py_split CHR ''.'' y) = length (py_split CHR ''.'' x)"
      by (simp add: length_py_split)
    with colon len same show ?thesis
      by (simp add: unexplode_ip_def unexplode_loop_map)
  qed
  then show ?thesis by (simp add: getixp_by_ip_def v6partial_key_def)
qed

theorem coarse_key_after_normalizing_witness:
  "zero_padded_variant CHR ''.'' ''198.51.100.7'' ''198.051.100.007''
   \<and> v4partial_of (unexplode_ip ''198.051.100.007'') = Inr ''198.51''
   \<and> v4partial_of (unexplode_ip ''198.51.100.7'') = Inr ''198.51''
   \<and> zero_padded_variant CHR '':'' ''2001:de8:6:0:0:0:714:1''
        ''2001:0de8:0006:0000:0000:0000:0714:0001''
   \<and> unexplode_ip ''2001:0de8:0006:0000:0000:0000:0714:0001'' = ''2001:de8:6:0:0:0:714:1''
   \<and> unexplode_ip ''2001:de8:6:0:0:0:714:1'' = ''2001:de8:6:0:0:0:714:1''
   \<and> v6partial_key py_ipaddress (unexplode_ip ''2001:0de8:0006:0000:0000:0000:0714:0001'')
       = Inr ''2001:de8:6''
   \<and> ip_address py_ipaddress ''2001:de8:6::714:1''
       = ip_address py_ipaddress ''2001:0de8:0006:0000:0000:0000:0714:0001''
   \<and> v6partial_key py_ipaddress ''2001:de8:6::714:1'' = Inr ''2001:de8:6''
   \<and> v6partial_key py_ipaddress ''2001:0de8:0006:0000:0000:0000:0714:0001'' = Inr ''2001:de8:6''"
proof -
  have v4: "zero_padded_variant CHR ''.'' ''198.51.100.7'' ''198.051.100.007''"
    by (simp add: zero_padded_variant_def zero_padded_def)
  have v4len: "(CHR ''.'' = CHR ''.'' \<and> length (py_split CHR ''.'' ''198.51.100.7'') = 4)
       \<or> (CHR ''.'' = CHR '':'' \<and> length (py_split CHR ''.'' ''198.51.100.7'') \<noteq> 4
           \<and> 1 < length (py_split CHR '':'' ''198.51.100.7''))"
    by simp
  have v6: "zero_padded_variant CHR '':'' ''2001:de8:6:0:0:0:714:1''
        ''2001:0de8:0006:0000:0000:0000:0714:0001''"
    by (simp add: zero_padded_variant_def zero_padded_def)
  have v6len: "(CHR '':'' = CHR ''.'' \<and> length (py_split CHR ''.'' ''2001:de8:6:0:0:0:714:1'') = 4)
       \<or> (CHR '':'' = CHR '':'' \<and> length (py_split CHR ''.'' ''2001:de8:6:0:0:0:714:1'') \<noteq> 4
           \<and> 1 < length (py_split CHR '':'' ''2001:de8:6:0:0:0:714:1''))"
    by simp
  have n4: "unexplode_ip ''198.51.100.7'' = ''198.51.100.7''"
    by (simp add: unexplode_ip_def unexplode_part_def re_sub_leading_zeros_def)
  have n6: "unexplode_ip ''2001:de8:6:0:0:0:714:1'' = ''2001:de8:6:0:0:0:714:1''"
    by (simp add: unexplode_ip_def unexplode_part_def re_sub_leading_zeros_def)
  have a6: "ip_address py_ipaddress ''2001:de8:6:0:0:0:714:1''
            = Inr (IPv6Address 42540770214241647096509877216930430977)"
    by (simp add: parser_defs)
  have "exploded (IPv6Address 42540770214241647096509877216930430977)
        = ''2001:0de8:0006:0000:0000:0000:0714:0001''"
    by (simp add: hextet_def digit_char_def)
  moreover have "v6partial_of ''2001:0de8:0006:0000:0000:0000:0714:0001'' = ''2001:de8:6''"
    by (simp add: v6partial_of_def re_sub_leading_zeros_def)
  ultimately have k6: "v6partial_of (exploded (IPv6Address 42540770214241647096509877216930430977))
            = ''2001:de8:6''"
    by (simp only:)
  have k4: "v4partial_of ''198.51.100.7'' = Inr ''198.51''"
    by (simp add: v4partial_of_def)
  have c6: "ip_address py_ipaddress ''2001:de8:6::714:1''
            = Inr (IPv6Address 42540770214241647096509877216930430977)"
    by (simp add: parser_defs)
  have x6: "ip_address py_ipaddress ''2001:0de8:0006:0000:0000:0000:0714:0001''
            = Inr (IPv6Address 42540770214241647096509877216930430977)"
    by (simp add: parser_defs)
  have kc: "v6partial_key py_ipaddress ''2001:de8:6::714:1'' = Inr ''2001:de8:6''"
    by (simp only: v6partial_key_def c6 k6 sum.case)
  note r4 = coarse_key_after_normalizing [OF v4 v4len, of py_ipaddress]
  note r6 = coarse_key_after_normalizing [OF v6 v6len, of py_ipaddress _ _
      "''2001:de8:6::714:1''" "''2001:0de8:0006:0000:0000:0000:0714:0001''"]
  from r6 c6 x6 kc
  have kx: "v6partial_key py_ipaddress ''2001:0de8:0006:0000:0000:0000:0714:0001''
            = Inr ''2001:de8:6''"
    by simp
  from r4 have e4: "unexplode_ip ''198.051.100.007'' = ''198.51.100.7''"
    by (simp add: n4)
  from r6 have e6: "unexplode_ip ''2001:0de8:0006:0000:0000:0000:0714:0001''
                    = ''2001:de8:6:0:0:0:714:1''"
    by (simp add: n6)
  show ?thesis
    by (simp only: v4 v6 e4 e6 n4 n6 k4 a6 k6 c6 x6 kc kx v6partial_key_def sum.case simp_thms)
qed

section \<open>Claims about ixlan\_intersect\<close>

lemma group_by_ixlanid_keys:
  "fst ` set (group_by_ixlanid d ns) = fst ` set d \<union> netixlan_ixlan_id ` set ns"
  by (induction d ns rule: group_by_ixlanid.induct) (auto simp: Let_def dom_update)

lemma group_by_ixlanid_distinct:
  "distinct (map fst d) \<Longrightarrow> distinct (map fst (group_by_ixlanid d ns))"
  by (induction d ns rule: group_by_ixlanid.induct) (simp_all add: Let_def distinct_update)

lemma group_by_ixlanid_buckets:
  "\<forall>k b. map_of d k = Some b \<longrightarrow> b \<noteq> [] \<Longrightarrow>
   map_of (group_by_ixlanid d ns) k = Some b \<Longrightarrow> b \<noteq> []"
proof (induction d ns arbitrary: k b rule: group_by_ixlanid.induct)
  case (1 d)
  then show ?case by simp
next
  case (2 d netixlan rest)
  let ?key = "netixlan_ixlan_id netixlan"
  let ?bucket = "case map_of d ?key of None \<Rightarrow> [] | Some b \<Rightarrow> b"
  let ?d' = "AList.update ?key (?bucket @ [netixlan]) d"
  have "\<forall>k b. map_of ?d' k = Some b \<longrightarrow> b \<noteq> []"
    using "2.prems"(1) by (auto simp: update_conv')
  moreover have "map_of (group_by_ixlanid ?d' rest) k = Some b"
    using "2.prems"(2) by (simp add: Let_def)
  ultimately show ?case
    using "2.IH" [of ?key ?bucket k b] by blast
qed

lemma add_rows_length:
  assumes "\<forall>k \<in> set ks. \<exists>b. map_of d1 k = Some b \<and> b \<noteq> []"
    and "\<forall>k \<in> set ks. map_of d2 k \<noteq> None"
  shows "\<exists>rows. add_rows d1 d2 tab ks = Inr rows \<and> length rows = length tab + length ks"
  using assms
proof (induction ks arbitrary: tab)
  case Nil
  then show ?case by simp
next
  case (Cons k ks)
  from Cons.prems obtain b1 b2 where b: "map_of d1 k = Some b1" "b1 \<noteq> []" "map_of d2 k = Some b2"
    by auto
  then obtain first more where f: "b1 = first # more" by (cases b1) auto
  let ?tab = "tab @ [(netixlan_name first,
                     py_join [CHR 0x0A, CHR 0x0A] (map item_text b1),
                     py_join [CHR 0x0A, CHR 0x0A] (map item_text b2))]"
  have step: "add_rows d1 d2 tab (k # ks) = add_rows d1 d2 ?tab ks"
    using b f by simp
  have "\<exists>rows. add_rows d1 d2 ?tab ks = Inr rows \<and> length rows = length ?tab + length ks"
    using Cons.prems by (intro Cons.IH) simp_all
  with step show ?case by simp
qed

text \<open>
  C5. For every pair of attachment sequences \<^verbatim>\<open>ixlan_intersect\<close> completes and
  emits as many rows as there are exchange-lan identifiers occurring in both
  sequences: one row per shared lan, however many attachments each side has
  there, and none for an identifier present on one side only.
\<close>

theorem ixlan_intersect_row_count:
  "\<exists>rows. ixlan_intersect netixlan1 netixlan2 = Inr rows
     \<and> length rows
        = card (netixlan_ixlan_id ` set netixlan1 \<inter> netixlan_ixlan_id ` set netixlan2)"
proof -
  let ?d1 = "group_by_ixlanid [] netixlan1"
  let ?d2 = "group_by_ixlanid [] netixlan2"
  let ?common = "filter (\<lambda>k. k \<in> set (map fst ?d2)) (map fst ?d1)"
  have keys1: "set (map fst ?d1) = netixlan_ixlan_id ` set netixlan1"
    using group_by_ixlanid_keys [of "[]" netixlan1] by simp
  have keys2: "set (map fst ?d2) = netixlan_ixlan_id ` set netixlan2"
    using group_by_ixlanid_keys [of "[]" netixlan2] by simp
  have dist: "distinct (map fst ?d1)"
    by (rule group_by_ixlanid_distinct) simp
  have "length ?common = card ({k. k \<in> set (map fst ?d2)} \<inter> set (map fst ?d1))"
    using dist by (rule distinct_length_filter)
  also have "\<dots> = card (netixlan_ixlan_id ` set netixlan1 \<inter> netixlan_ixlan_id ` set netixlan2)"
    by (simp only: keys1 keys2 Collect_mem_eq Int_commute)
  finally have count: "length ?common
      = card (netixlan_ixlan_id ` set netixlan1 \<inter> netixlan_ixlan_id ` set netixlan2)" .
  have in1: "\<forall>k \<in> set ?common. \<exists>b. map_of ?d1 k = Some b \<and> b \<noteq> []"
  proof
    fix k assume "k \<in> set ?common"
    then have "k \<in> fst ` set ?d1" by simp
    then obtain b where b: "map_of ?d1 k = Some b"
      by (cases "map_of ?d1 k") (auto simp: map_of_eq_None_iff)
    then have "b \<noteq> []"
      using group_by_ixlanid_buckets [of "[]" netixlan1 k b] by simp
    with b show "\<exists>b. map_of ?d1 k = Some b \<and> b \<noteq> []" by simp
  qed
  have in2: "\<forall>k \<in> set ?common. map_of ?d2 k \<noteq> None"
    by (simp add: map_of_eq_None_iff)
  from add_rows_length [OF in1 in2, of "[]"]
  obtain rows where "add_rows ?d1 ?d2 [] ?common = Inr rows" "length rows = length ?common"
    by auto
  with count show ?thesis
    by (simp add: ixlan_intersect_def Let_def)
qed

end
